theory Spec2Isabelle
  imports Main "HOL-Library.AList"
begin

section \<open>Backoff policy (utils/backoff)\<close>

text \<open>
  \<^verbatim>\<open>const INITIAL_RETRY_DELAY = 2000; const MAX_RETRIES = 4;\<close>
  \<^verbatim>\<open>getBackoffDelay = (attempt) => Math.min(INITIAL_RETRY_DELAY * Math.pow(2, attempt), 30000)\<close>

  The attempt number is a non-negative integer, modelled as \<open>nat\<close>; the delay is a
  number of milliseconds. On such arguments \<open>Math.pow(2, attempt)\<close> is the exact power of
  two (and \<open>Infinity\<close> from 1024 on, where the minimum is the cap all the same), so the
  floating-point result is the one computed here.
\<close>

definition INITIAL_RETRY_DELAY :: nat where
  "INITIAL_RETRY_DELAY = 2000"

definition MAX_RETRIES :: nat where
  "MAX_RETRIES = 4"

definition getBackoffDelay :: "nat \<Rightarrow> nat" where
  "getBackoffDelay attempt = min (INITIAL_RETRY_DELAY * 2 ^ attempt) 30000"

section \<open>JavaScript strings\<close>

text \<open>
  A JavaScript string is a sequence of UTF-16 code units, here a list of their numbers.
  \<open>js\<close> writes a literal. \<open>trim\<close> is \<^verbatim>\<open>String.prototype.trim\<close>: it removes the
  white space and line terminators of ECMAScript from both ends. \<open>startsWith\<close> is
  \<^verbatim>\<open>String.prototype.startsWith\<close>, and \<open>numberToString\<close> is \<^verbatim>\<open>toString\<close> (and the
  template-literal conversion) on a non-negative integer: its decimal digits.
\<close>

type_synonym jsstring = "nat list"

definition js :: "string \<Rightarrow> jsstring" where
  "js s = map of_char s"

definition isWhiteSpace :: "nat \<Rightarrow> bool" where
  "isWhiteSpace c =
     (c \<in> set [9, 10, 11, 12, 13, 32, 160, 5760, 8232, 8233, 8239, 8287, 12288, 65279]
      \<or> (8192 \<le> c \<and> c \<le> 8202))"

definition trim :: "jsstring \<Rightarrow> jsstring" where
  "trim s = rev (dropWhile isWhiteSpace (rev (dropWhile isWhiteSpace s)))"

definition startsWith :: "jsstring \<Rightarrow> jsstring \<Rightarrow> bool" where
  "startsWith s p = (take (length p) s = p)"

fun digits :: "nat \<Rightarrow> jsstring" where
  "digits n = (if n < 10 then [48 + n] else digits (n div 10) @ [48 + n mod 10])"

declare digits.simps [simp del]

definition numberToString :: "nat \<Rightarrow> jsstring" where
  "numberToString n = digits n"

section \<open>Data model (app/(tabs)/index.tsx)\<close>

text \<open>
  \<^verbatim>\<open>interface Message { id; content; role: 'user' | 'assistant'; created_at; thread_id;\<close>
  \<^verbatim>\<open>  pending?: boolean; failed?: boolean; offline?: boolean; retryCount?: number }\<close>
  An optional field is an \<open>option\<close>: \<open>None\<close> is \<^verbatim>\<open>undefined\<close>. The field \<^verbatim>\<open>id\<close> is
  \<open>msg_id\<close> here, and the fields of \<^verbatim>\<open>Thread\<close> and \<^verbatim>\<open>Session\<close> carry a prefix.
\<close>

datatype Role = User | Assistant

record Message =
  msg_id :: jsstring
  content :: jsstring
  role :: Role
  created_at :: jsstring
  thread_id :: jsstring
  pending :: "bool option"
  failed :: "bool option"
  offline :: "bool option"
  retryCount :: "nat option"

record Thread =
  thread_ident :: jsstring
  title :: jsstring
  thread_created_at :: jsstring

record Session =
  user_id :: jsstring
  access_token :: jsstring

subsection \<open>The remote collaborators\<close>

text \<open>
  A row handed to \<^verbatim>\<open>supabase.from('messages').insert\<close>; \<open>row_user_id\<close> is
  \<^verbatim>\<open>session?.user.id\<close>, \<^verbatim>\<open>undefined\<close> without a session.
\<close>

record Row =
  row_content :: jsstring
  row_role :: Role
  row_user_id :: "jsstring option"
  row_thread_id :: jsstring

text \<open>
  The body of a POST to the chat relay. The content of the system entry is the state
  \<^verbatim>\<open>systemPrompt\<close>, which may be \<^verbatim>\<open>null\<close>.
\<close>

datatype ChatRole = System | Chat Role

record Request =
  bearer :: jsstring
  provider :: jsstring
  model :: jsstring
  prompt :: "jsstring option"
  chat :: "(ChatRole \<times> jsstring option) list"

text \<open>
  The value of a property read from parsed JSON, as far as the code tells values
  apart: a string, or a value that is not a string (\<^verbatim>\<open>null\<close>, a boolean, a number, an
  array, an object) with its truthiness and its conversion to a string, which is what
  \<^verbatim>\<open>new Error(value)\<close> takes as its message.
\<close>

datatype JsonValue = JString jsstring | JOther bool jsstring

text \<open>
  What \<^verbatim>\<open>fetch\<close> gives back. It rejects (\<open>NetworkError\<close>, with the message of the error)
  or resolves with a status and a body. \<^verbatim>\<open>response.json()\<close> rejects on a body that is
  not JSON (\<open>NotJson\<close>, with the message of the error). It resolves to \<^verbatim>\<open>null\<close> on the body
  \<^verbatim>\<open>null\<close> (\<open>JsonNull\<close>), where reading any property raises a TypeError. Otherwise
  (\<open>Json\<close>) it resolves to a value of which the code reads two paths: \<^verbatim>\<open>message\<close>
  (\<open>errMessage\<close>, \<open>None\<close> when the value has no such property, as no number, string or array
  has) and \<^verbatim>\<open>choices[0].message\<close> (\<open>choiceMessage\<close>: \<open>None\<close> when that object is absent or
  \<^verbatim>\<open>null\<close>, so that reading its \<^verbatim>\<open>content\<close> raises a TypeError; \<open>Some None\<close> when it has no
  content; \<open>Some (Some c)\<close> when its content is the string \<open>c\<close>). \<^verbatim>\<open>response.ok\<close> is true
  for the statuses 200 to 299.
\<close>

datatype Body =
  NotJson jsstring
| JsonNull
| Json (errMessage: "JsonValue option") (choiceMessage: "jsstring option option")

datatype RelayOutcome = NetworkError jsstring | Response nat Body

definition ok :: "nat \<Rightarrow> bool" where
  "ok status = (200 \<le> status \<and> status \<le> 299)"

text \<open>
  A thrown value: an instance of \<^verbatim>\<open>Error\<close> with its message, or something else.
\<close>

datatype Thrown = JsError jsstring | NonError

text \<open>
  The answers of the collaborators during one \<^verbatim>\<open>sendMessage\<close>, in the order the code
  asks for them: the clock for the user message, the insert of the user row
  (\<open>Some m\<close>: it failed with \<^verbatim>\<open>userError.message = m\<close>), \<^verbatim>\<open>supabase.auth.getSession()\<close>,
  the relay, the insert of the assistant row (\<open>Some t\<close>: it failed and \<open>t\<close> is
  \<^verbatim>\<open>assistantError\<close>), the clock for the assistant message. \<open>nullRead p\<close> is the message of
  the TypeError that the JavaScript engine raises when the property \<open>p\<close> of \<^verbatim>\<open>null\<close> is read.
\<close>

record SendEnv =
  nowUser :: nat
  isoUser :: jsstring
  userInsert :: "jsstring option"
  freshSession :: "Session option"
  relay :: RelayOutcome
  assistantInsert :: "Thrown option"
  nowAssistant :: nat
  isoAssistant :: jsstring
  nullRead :: "jsstring \<Rightarrow> jsstring"

text \<open>
  The answers of the collaborators during one attempt of \<^verbatim>\<open>retryMessage\<close>.
\<close>

record RetryEnv =
  r_session :: "Session option"
  r_relay :: RelayOutcome
  r_insert :: "Thrown option"

text \<open>
  The answer to the \<^verbatim>\<open>select\<close> of \<^verbatim>\<open>syncMessages\<close>: \<^verbatim>\<open>{ data, error }\<close>.
\<close>

datatype SelectResult = SelectError | SelectData "Message list option"

subsection \<open>The state\<close>

text \<open>
  The state of the chat screen (\<^verbatim>\<open>useState\<close>: \<open>messages\<close>, \<open>input\<close>, \<open>isLoading\<close>, \<open>error\<close>,
  \<open>currentThread\<close>, \<open>session\<close>, \<open>systemPrompt\<close>), of the two stores (\<open>isOnline\<close> of
  networkStore; \<open>storeMessages\<close>, the field \<^verbatim>\<open>messages\<close> of messagesStore, and
  \<open>pendingMessages\<close>), of AsyncStorage (\<open>storage\<close>: the keys in the order of
  \<^verbatim>\<open>getAllKeys\<close>, each with its value), and the effects on the collaborators: \<open>db\<close>, the
  rows inserted into the table \<^verbatim>\<open>messages\<close>; \<open>relayLog\<close>, the requests sent to the relay;
  \<open>sleeps\<close>, the delays slept. \<open>retryTrace\<close> is a ghost field: every entry into
  \<^verbatim>\<open>retryMessage\<close> appends its message and attempt.
\<close>

record World =
  messages :: "Message list"
  input :: jsstring
  isLoading :: bool
  error :: "jsstring option"
  currentThread :: "Thread option"
  session :: "Session option"
  systemPrompt :: "jsstring option"
  isOnline :: bool
  storeMessages :: "Message list"
  pendingMessages :: "Message list"
  storage :: "(jsstring \<times> jsstring) list"
  db :: "Row list"
  relayLog :: "Request list"
  sleeps :: "nat list"
  retryTrace :: "(Message \<times> nat) list"

text \<open>AsyncStorage: \<^verbatim>\<open>getItem\<close> (\<open>None\<close> is \<^verbatim>\<open>null\<close>), \<^verbatim>\<open>setItem\<close>, \<^verbatim>\<open>removeItem\<close>, \<^verbatim>\<open>getAllKeys\<close>.\<close>

definition getItem :: "(jsstring \<times> jsstring) list \<Rightarrow> jsstring \<Rightarrow> jsstring option" where
  "getItem st key = map_of st key"

definition setItem :: "(jsstring \<times> jsstring) list \<Rightarrow> jsstring \<Rightarrow> jsstring \<Rightarrow> (jsstring \<times> jsstring) list" where
  "setItem st key v = AList.update key v st"

definition removeItem :: "(jsstring \<times> jsstring) list \<Rightarrow> jsstring \<Rightarrow> (jsstring \<times> jsstring) list" where
  "removeItem st key = AList.delete key st"

definition getAllKeys :: "(jsstring \<times> jsstring) list \<Rightarrow> jsstring list" where
  "getAllKeys st = map fst st"

text \<open>\<^verbatim>\<open>prev.map(msg => msg.id === i ? f(msg) : msg)\<close>\<close>

definition mapById :: "jsstring \<Rightarrow> (Message \<Rightarrow> Message) \<Rightarrow> Message list \<Rightarrow> Message list" where
  "mapById i f prev = map (\<lambda>msg. if msg_id msg = i then f msg else msg) prev"

text \<open>\<^verbatim>\<open>messages.map(msg => ({ role: msg.role, content: msg.content }))\<close>\<close>

definition history :: "Message list \<Rightarrow> (ChatRole \<times> jsstring option) list" where
  "history ms = map (\<lambda>msg. (Chat (role msg), Some (content msg))) ms"

section \<open>Message delivery: sendMessage (app/(tabs)/index.tsx, lines 293 to 418)\<close>

text \<open>
  The body of the \<^verbatim>\<open>try\<close> block, from the insert of the user row to the append of the
  assistant message. It returns the world reached and the value thrown, if any. \<open>cl\<close>
  is the render the handler closes over (its \<^verbatim>\<open>session\<close>, \<^verbatim>\<open>systemPrompt\<close> and \<^verbatim>\<open>messages\<close>).
  A failed insert adds no row.
\<close>

definition sendRequest :: "World \<Rightarrow> Session \<Rightarrow> jsstring \<Rightarrow> Request" where
  "sendRequest cl currentSession userMessage =
     \<lparr>bearer = access_token currentSession,
      provider = js ''openai'',
      model = js ''chatgpt-4o-latest'',
      prompt = Some userMessage,
      chat = (System, systemPrompt cl) # history (messages cl)\<rparr>"

definition aiRequestFailed :: "nat \<Rightarrow> jsstring" where
  "aiRequestFailed status = js ''AI request failed with status '' @ numberToString status"

text \<open>
  The message of the error that the lines 366 to 368 throw on a response that is not ok:
  \<^verbatim>\<open>const errorData = await response.json().catch(() => ({}));\<close>
  \<^verbatim>\<open>throw new Error(errorData.message || `AI request failed with status ${response.status}`)\<close>.
  A body that is not JSON gives the empty object, and so the fallback text. On the body
  \<^verbatim>\<open>null\<close> the read of \<^verbatim>\<open>errorData.message\<close> raises the TypeError instead. Otherwise a truthy
  \<^verbatim>\<open>message\<close> (a string is truthy when it is not empty) becomes the message of the error,
  converted to a string, and a missing or falsy one gives the fallback text.
\<close>

definition relayFailureMessage :: "SendEnv \<Rightarrow> nat \<Rightarrow> Body \<Rightarrow> jsstring" where
  "relayFailureMessage env status body =
     (case body of
        NotJson _ \<Rightarrow> aiRequestFailed status
      | JsonNull \<Rightarrow> nullRead env (js ''message'')
      | Json None _ \<Rightarrow> aiRequestFailed status
      | Json (Some (JString m)) _ \<Rightarrow> (if m \<noteq> [] then m else aiRequestFailed status)
      | Json (Some (JOther truthy m)) _ \<Rightarrow> (if truthy then m else aiRequestFailed status))"

text \<open>The two object literals of \<^verbatim>\<open>sendMessage\<close>: the new user message and the reply.\<close>

definition newUserMessage :: "SendEnv \<Rightarrow> Thread \<Rightarrow> jsstring \<Rightarrow> Message" where
  "newUserMessage env thread userMessage =
     \<lparr>msg_id = numberToString (nowUser env),
      content = userMessage,
      role = User,
      created_at = isoUser env,
      thread_id = thread_ident thread,
      pending = None, failed = None, offline = None, retryCount = None\<rparr>"

definition newAssistantMessage :: "SendEnv \<Rightarrow> Thread \<Rightarrow> jsstring \<Rightarrow> Message" where
  "newAssistantMessage env thread assistantMessage =
     \<lparr>msg_id = numberToString (nowAssistant env),
      content = assistantMessage,
      role = Assistant,
      created_at = isoAssistant env,
      thread_id = thread_ident thread,
      pending = None, failed = None, offline = None, retryCount = None\<rparr>"

definition sendTry :: "SendEnv \<Rightarrow> World \<Rightarrow> Thread \<Rightarrow> jsstring \<Rightarrow> World \<Rightarrow> World \<times> Thrown option" where
  "sendTry env cl thread userMessage w =
     (case userInsert env of
        Some m \<Rightarrow> (w, Some (JsError (js ''Failed to save user message: '' @ m)))
      | None \<Rightarrow>
         (let w1 = w\<lparr>db := db w @ [\<lparr>row_content = userMessage, row_role = User,
                     row_user_id = map_option user_id (session cl),
                     row_thread_id = thread_ident thread\<rparr>]\<rparr>
          in case freshSession env of
               None \<Rightarrow> (w1, Some (JsError (js ''No active session'')))
             | Some currentSession \<Rightarrow>
                (let w2 = w1\<lparr>relayLog := relayLog w1 @ [sendRequest cl currentSession userMessage]\<rparr>
                 in case relay env of
                      NetworkError m \<Rightarrow> (w2, Some (JsError m))
                    | Response status body \<Rightarrow>
                       (if \<not> ok status then
                          (w2, Some (JsError (relayFailureMessage env status body)))
                        else
                          (case body of
                             NotJson m \<Rightarrow> (w2, Some (JsError m))
                           | JsonNull \<Rightarrow> (w2, Some (JsError (nullRead env (js ''choices''))))
                           | Json _ None \<Rightarrow> (w2, Some (JsError (js ''Invalid AI response format'')))
                           | Json _ (Some None) \<Rightarrow> (w2, Some (JsError (js ''Invalid AI response format'')))
                           | Json _ (Some (Some assistantMessage)) \<Rightarrow>
                              (if assistantMessage = [] then
                                 (w2, Some (JsError (js ''Invalid AI response format'')))
                               else
                                 (case assistantInsert env of
                                    Some assistantError \<Rightarrow> (w2, Some assistantError)
                                  | None \<Rightarrow>
                                     (w2\<lparr>db := db w2 @ [\<lparr>row_content = assistantMessage,
                                             row_role = Assistant,
                                             row_user_id = map_option user_id (session cl),
                                             row_thread_id = thread_ident thread\<rparr>],
                                          messages := messages w2 @
                                            [newAssistantMessage env thread assistantMessage]\<rparr>,
                                      None))))))))"

text \<open>
  \<^verbatim>\<open>sendMessage\<close>: the guard, the optimistic append, the \<^verbatim>\<open>try\<close> block, the \<^verbatim>\<open>catch\<close>
  (\<^verbatim>\<open>setError(err instanceof Error ? err.message : 'Failed to send message')\<close>, then the
  message marked failed) and the \<^verbatim>\<open>finally\<close>. The handler runs in the render it was
  created in, so the world it starts from is also the one it closes over.
\<close>

definition sendMessage :: "SendEnv \<Rightarrow> World \<Rightarrow> World" where
  "sendMessage env w =
     (case currentThread w of
        None \<Rightarrow> w
      | Some thread \<Rightarrow>
         (if trim (input w) = [] \<or> isLoading w then w
          else
            (let userMessage = trim (input w);
                 w1 = w\<lparr>input := [], isLoading := True\<rparr>;
                 newMessage = newUserMessage env thread userMessage;
                 w2 = w1\<lparr>messages := messages w1 @ [newMessage]\<rparr>
             in case sendTry env w thread userMessage w2 of
                  (w3, None) \<Rightarrow> w3\<lparr>isLoading := False\<rparr>
                | (w3, Some err) \<Rightarrow>
                    w3\<lparr>error := Some (case err of JsError m \<Rightarrow> m
                                         | NonError \<Rightarrow> js ''Failed to send message''),
                       messages := mapById (msg_id newMessage)
                                     (\<lambda>msg. msg\<lparr>failed := Some True, pending := Some False\<rparr>)
                                     (messages w3),
                       isLoading := False\<rparr>)))"

section \<open>Retry controller: retryMessage (app/(tabs)/index.tsx, lines 665 to 744)\<close>

definition retryRequest :: "World \<Rightarrow> Session \<Rightarrow> Request" where
  "retryRequest cl currentSession =
     \<lparr>bearer = access_token currentSession,
      provider = js ''openai'',
      model = js ''gpt-4o'',
      prompt = None,
      chat = (System, systemPrompt cl) # history (messages cl)\<rparr>"

text \<open>
  The \<^verbatim>\<open>try\<close> block of one attempt: the backoff sleep when \<open>attempt > 0\<close>, the session,
  the relay, the insert, the update of the message. It returns whether it reached its
  end (\<open>False\<close>: something was thrown) and the world reached. The reply read from
  \<^verbatim>\<open>aiResponse.choices[0].message.content\<close> is bound to \<^verbatim>\<open>assistantMessage\<close> and not used
  again; the row inserted has the content and the role of \<open>message\<close>.
\<close>

definition retryTry :: "RetryEnv \<Rightarrow> World \<Rightarrow> Message \<Rightarrow> nat \<Rightarrow> World \<Rightarrow> bool \<times> World" where
  "retryTry e cl message attempt w =
     (let w1 = (if attempt > 0 then w\<lparr>sleeps := sleeps w @ [getBackoffDelay attempt]\<rparr> else w)
      in case r_session e of
           None \<Rightarrow> (False, w1)
         | Some currentSession \<Rightarrow>
            (let w2 = w1\<lparr>relayLog := relayLog w1 @ [retryRequest cl currentSession]\<rparr>
             in case r_relay e of
                  NetworkError _ \<Rightarrow> (False, w2)
                | Response status body \<Rightarrow>
                   (if \<not> ok status then (False, w2)
                    else
                      (case body of
                         NotJson _ \<Rightarrow> (False, w2)
                       | JsonNull \<Rightarrow> (False, w2)
                       | Json _ None \<Rightarrow> (False, w2)
                       | Json _ (Some assistantMessage) \<Rightarrow>
                          (case r_insert e of
                             Some _ \<Rightarrow> (False, w2)
                           | None \<Rightarrow>
                              (True,
                               w2\<lparr>db := db w2 @ [\<lparr>row_content = content message,
                                       row_role = role message,
                                       row_user_id = map_option user_id (session cl),
                                       row_thread_id = thread_id message\<rparr>],
                                  messages := mapById (msg_id message)
                                    (\<lambda>msg. msg\<lparr>failed := Some False, pending := Some False,
                                               retryCount := Some attempt\<rparr>)
                                    (messages w2)\<rparr>))))))"

text \<open>
  \<^verbatim>\<open>retryMessage(message, attempt = 0)\<close>. \<open>env attempt\<close> holds the answers of the
  collaborators during that attempt, \<open>cl\<close> is the render the function closes over. The
  \<^verbatim>\<open>catch\<close> returns the recursive call, and the \<^verbatim>\<open>finally\<close> writes \<^verbatim>\<open>isLoading\<close> only: it is
  applied to the world the recursive call ends in, where the last write to \<^verbatim>\<open>isLoading\<close>
  is \<^verbatim>\<open>false\<close> in either order.
\<close>

function retryMessage :: "(nat \<Rightarrow> RetryEnv) \<Rightarrow> World \<Rightarrow> Message \<Rightarrow> nat \<Rightarrow> World \<Rightarrow> World" where
  "retryMessage env cl message attempt w =
     (let w0 = w\<lparr>retryTrace := retryTrace w @ [(message, attempt)]\<rparr>
      in if attempt \<ge> 4 then
           w0\<lparr>error := Some (js ''Message failed after multiple attempts''),
              messages := mapById (msg_id message)
                (\<lambda>msg. msg\<lparr>failed := Some True, pending := Some False,
                           retryCount := Some attempt\<rparr>)
                (messages w0)\<rparr>
         else
           (case retryTry (env attempt) cl message attempt (w0\<lparr>isLoading := True, error := None\<rparr>) of
              (True, w2) \<Rightarrow> w2\<lparr>isLoading := False\<rparr>
            | (False, w2) \<Rightarrow> (retryMessage env cl message (attempt + 1) w2)\<lparr>isLoading := False\<rparr>))"
  by pat_completeness auto
termination
  by (relation "measure (\<lambda>(env, cl, message, attempt, w). 4 - attempt)") auto

declare retryMessage.simps [simp del]

section \<open>Resynchronisation on connectivity (stores/networkStore.ts, index.tsx lines 747 to 766)\<close>

text \<open>
  \<^verbatim>\<open>setIsOnline: (status) => set({ isOnline: status })\<close>, and the listener
  \<^verbatim>\<open>setIsOnline(state.isConnected ?? true)\<close>.
\<close>

definition setIsOnline :: "bool \<Rightarrow> World \<Rightarrow> World" where
  "setIsOnline status w = w\<lparr>isOnline := status\<rparr>"

definition netInfoListener :: "bool option \<Rightarrow> World \<Rightarrow> World" where
  "netInfoListener isConnected w =
     setIsOnline (case isConnected of None \<Rightarrow> True | Some b \<Rightarrow> b) w"

text \<open>
  The loop of \<^verbatim>\<open>syncPendingMessages\<close> over the pending keys. \<open>readItem\<close> is
  \<^verbatim>\<open>JSON.parse(await AsyncStorage.getItem(key) || '')\<close>, where \<open>parse\<close> is \<^verbatim>\<open>JSON.parse\<close> read
  as a message (\<open>None\<close>: it throws, as it does on the empty string); the \<^verbatim>\<open>catch\<close> around the
  loop then ends it. \<open>envs i\<close> holds the answers of the collaborators during the retry of
  the \<open>i\<close>-th key.
\<close>

definition readItem :: "(jsstring \<Rightarrow> Message option) \<Rightarrow> (jsstring \<times> jsstring) list \<Rightarrow> jsstring \<Rightarrow>
    Message option" where
  "readItem parse st key =
     (let item = (case getItem st key of None \<Rightarrow> [] | Some v \<Rightarrow> v)
      in if item = [] then None else parse item)"

fun syncLoop :: "(jsstring \<Rightarrow> Message option) \<Rightarrow> (nat \<Rightarrow> nat \<Rightarrow> RetryEnv) \<Rightarrow> World \<Rightarrow>
    jsstring list \<Rightarrow> nat \<Rightarrow> World \<Rightarrow> World" where
  "syncLoop parse envs cl [] i w = w"
| "syncLoop parse envs cl (key # pendingKeys) i w =
     (case readItem parse (storage w) key of
        None \<Rightarrow> w
      | Some message \<Rightarrow>
         (let w1 = retryMessage (envs i) cl message 0 w;
              w2 = w1\<lparr>storage := removeItem (storage w1) key\<rparr>
          in syncLoop parse envs cl pendingKeys (Suc i) w2))"

definition pendingKeysOf :: "(jsstring \<times> jsstring) list \<Rightarrow> jsstring list" where
  "pendingKeysOf st = filter (\<lambda>key. startsWith key (js ''pending_message_'')) (getAllKeys st)"

definition syncPendingMessages :: "(jsstring \<Rightarrow> Message option) \<Rightarrow> (nat \<Rightarrow> nat \<Rightarrow> RetryEnv) \<Rightarrow>
    World \<Rightarrow> World \<Rightarrow> World" where
  "syncPendingMessages parse envs cl w =
     (let pendingKeys = pendingKeysOf (storage w)
      in syncLoop parse envs cl pendingKeys 0 w)"

text \<open>
  \<^verbatim>\<open>useEffect(() => { if (isOnline) syncPendingMessages(); }, [isOnline])\<close>: the effect
  runs after the first render and after every render in which \<^verbatim>\<open>isOnline\<close> differs from
  the render before; it closes over the render it runs in. \<open>connectivityChange\<close> is a
  notification of the network listener followed by that render.
\<close>

definition isOnlineEffect :: "(jsstring \<Rightarrow> Message option) \<Rightarrow> (nat \<Rightarrow> nat \<Rightarrow> RetryEnv) \<Rightarrow>
    World \<Rightarrow> World" where
  "isOnlineEffect parse envs w = (if isOnline w then syncPendingMessages parse envs w w else w)"

definition connectivityChange :: "(jsstring \<Rightarrow> Message option) \<Rightarrow> (nat \<Rightarrow> nat \<Rightarrow> RetryEnv) \<Rightarrow>
    bool option \<Rightarrow> World \<Rightarrow> World" where
  "connectivityChange parse envs isConnected w =
     (let w1 = netInfoListener isConnected w
      in if isOnline w1 \<noteq> isOnline w then isOnlineEffect parse envs w1 else w1)"

section \<open>The messages store (stores/messagesStore.ts)\<close>

text \<open>
  \<open>stringify\<close> and \<open>parseList\<close> are \<^verbatim>\<open>JSON.stringify\<close> and \<^verbatim>\<open>JSON.parse\<close> on a list of
  messages (\<open>None\<close>: the parse throws). \<open>writeOk\<close> tells whether \<^verbatim>\<open>AsyncStorage.setItem\<close>
  succeeds; its failure is logged by the \<^verbatim>\<open>catch\<close> and changes nothing.
\<close>

definition setMessages :: "(Message list \<Rightarrow> jsstring) \<Rightarrow> bool \<Rightarrow> Message list \<Rightarrow> World \<Rightarrow> World" where
  "setMessages stringify writeOk ms w =
     (let w1 = w\<lparr>storeMessages := ms\<rparr>
      in if writeOk then w1\<lparr>storage := setItem (storage w1) (js ''cached_messages'') (stringify ms)\<rparr>
         else w1)"

definition addMessage :: "Message \<Rightarrow> World \<Rightarrow> World" where
  "addMessage message w =
     w\<lparr>storeMessages := storeMessages w @ [message],
       pendingMessages := (if pending message = Some True then pendingMessages w @ [message]
                           else pendingMessages w)\<rparr>"

definition syncMessages :: "(Message list \<Rightarrow> jsstring) \<Rightarrow> (jsstring \<Rightarrow> Message list option) \<Rightarrow>
    SelectResult \<Rightarrow> bool \<Rightarrow> jsstring \<Rightarrow> World \<Rightarrow> World" where
  "syncMessages stringify parseList selected writeOk threadId w =
     (let cached = getItem (storage w) (js ''cached_messages_'' @ threadId);
          fromCache = (case cached of
                         None \<Rightarrow> Some w
                       | Some c \<Rightarrow>
                          (if c = [] then Some w
                           else (case parseList c of
                                   None \<Rightarrow> None
                                 | Some ms \<Rightarrow> Some (w\<lparr>storeMessages := ms\<rparr>))))
      in case fromCache of
           None \<Rightarrow> w
         | Some w1 \<Rightarrow>
            (case selected of
               SelectError \<Rightarrow> w1
             | SelectData None \<Rightarrow> w1
             | SelectData (Some data) \<Rightarrow>
                (let w2 = w1\<lparr>storeMessages := data\<rparr>
                 in if writeOk then
                      w2\<lparr>storage := setItem (storage w2) (js ''cached_messages_'' @ threadId)
                                       (stringify data)\<rparr>
                    else w2)))"

section \<open>The delivery flags\<close>

text \<open>The two flags of a message are not both \<^verbatim>\<open>true\<close>.\<close>

definition flagsExclusive :: "Message \<Rightarrow> bool" where
  "flagsExclusive msg = (\<not> (pending msg = Some True \<and> failed msg = Some True))"

section \<open>Observations used in the properties\<close>

text \<open>
  Whether the \<^verbatim>\<open>try\<close> block of a retry attempt reaches its end under the answers \<open>e\<close>
  (\<open>retryTry_result\<close> below proves that this is what \<open>retryTry\<close> returns), the requests
  and the sleeps of one attempt.
\<close>

definition attemptSucceeds :: "RetryEnv \<Rightarrow> bool" where
  "attemptSucceeds e =
     (case r_session e of
        None \<Rightarrow> False
      | Some _ \<Rightarrow>
         (case r_relay e of
            NetworkError _ \<Rightarrow> False
          | Response status body \<Rightarrow>
             ok status \<and>
             (case body of
                NotJson _ \<Rightarrow> False
              | JsonNull \<Rightarrow> False
              | Json _ None \<Rightarrow> False
              | Json _ (Some _) \<Rightarrow> r_insert e = None)))"

definition attemptRequests :: "RetryEnv \<Rightarrow> World \<Rightarrow> Request list" where
  "attemptRequests e cl = (case r_session e of None \<Rightarrow> [] | Some s \<Rightarrow> [retryRequest cl s])"

definition attemptSleeps :: "nat \<Rightarrow> nat list" where
  "attemptSleeps attempt = (if attempt > 0 then [getBackoffDelay attempt] else [])"

text \<open>
  The messages \<^verbatim>\<open>retryMessage\<close> was called on from outside (with the default attempt 0),
  in order, and what \<^verbatim>\<open>syncPendingMessages\<close> would read under the pending keys.
\<close>

definition topLevelRetries :: "World \<Rightarrow> Message list" where
  "topLevelRetries w = map fst (filter (\<lambda>(message, attempt). attempt = 0) (retryTrace w))"

definition queuedMessages :: "(jsstring \<Rightarrow> Message option) \<Rightarrow> (jsstring \<times> jsstring) list \<Rightarrow>
    Message option list" where
  "queuedMessages parse st = map (readItem parse st) (pendingKeysOf st)"

subsection \<open>Scenarios\<close>

text \<open>
  The state of a freshly mounted screen (the initial values of \<^verbatim>\<open>useState\<close> and of the
  stores, nothing stored, nothing sent), and the scenarios of the specification: a
  thread and a session are loaded and the user has typed a question; the relay answers,
  or fails with status 500 and a body whose \<^verbatim>\<open>message\<close> is a text, or the empty string.
\<close>

definition initialWorld :: World where
  "initialWorld =
     \<lparr>messages = [], input = [], isLoading = False, error = None, currentThread = None,
      session = None, systemPrompt = None, isOnline = True, storeMessages = [],
      pendingMessages = [], storage = [], db = [], relayLog = [], sleeps = [],
      retryTrace = []\<rparr>"

definition exampleThread :: Thread where
  "exampleThread = \<lparr>thread_ident = js ''t1'', title = js ''New Chat'',
     thread_created_at = js ''2024-05-01T10:00:00.000Z''\<rparr>"

definition exampleSession :: Session where
  "exampleSession = \<lparr>user_id = js ''u1'', access_token = js ''token''\<rparr>"

definition readyWorld :: World where
  "readyWorld = initialWorld\<lparr>currentThread := Some exampleThread,
     session := Some exampleSession, input := js '' What is promissory estoppel? ''\<rparr>"

definition replyEnv :: SendEnv where
  "replyEnv = \<lparr>nowUser = 1714557600000, isoUser = js ''2024-05-01T10:00:00.000Z'',
     userInsert = None, freshSession = Some exampleSession,
     relay = Response 200 (Json None (Some (Some (js ''Promissory estoppel is...'')))),
     assistantInsert = None,
     nowAssistant = 1714557603000, isoAssistant = js ''2024-05-01T10:00:03.000Z'',
     nullRead = (\<lambda>p. js ''Cannot read property '' @ p @ js '' of null'')\<rparr>"

definition rateLimitedEnv :: SendEnv where
  "rateLimitedEnv = replyEnv\<lparr>relay := Response 500 (Json (Some (JString (js ''rate limited''))) None)\<rparr>"

definition emptyMessageEnv :: SendEnv where
  "emptyMessageEnv = replyEnv\<lparr>relay := Response 500 (Json (Some (JString [])) None)\<rparr>"

text \<open>The world after the failed send, and the message it left marked as failed.\<close>

definition failedWorld :: World where
  "failedWorld = sendMessage rateLimitedEnv readyWorld"

definition failedMessage :: Message where
  "failedMessage = \<lparr>msg_id = js ''1714557600000'', content = js ''What is promissory estoppel?'',
     role = User, created_at = js ''2024-05-01T10:00:00.000Z'', thread_id = js ''t1'',
     pending = Some False, failed = Some True, offline = None, retryCount = None\<rparr>"

text \<open>Answers to a retry attempt: the relay replies, or is down.\<close>

definition retryReplies :: RetryEnv where
  "retryReplies = \<lparr>r_session = Some exampleSession,
     r_relay = Response 200 (Json None (Some (Some (js ''Promissory estoppel is...'')))),
     r_insert = None\<rparr>"

definition retryDown :: RetryEnv where
  "retryDown = \<lparr>r_session = Some exampleSession,
     r_relay = Response 503 (Json (Some (JString (js ''unavailable''))) None), r_insert = None\<rparr>"

definition alwaysDown :: "nat \<Rightarrow> RetryEnv" where
  "alwaysDown attempt = retryDown"

definition downTwice :: "nat \<Rightarrow> RetryEnv" where
  "downTwice attempt = (if attempt < 2 then retryDown else retryReplies)"

definition alwaysReplies :: "nat \<Rightarrow> RetryEnv" where
  "alwaysReplies attempt = retryReplies"

text \<open>
  Stand-ins for \<^verbatim>\<open>JSON.stringify\<close> and \<^verbatim>\<open>JSON.parse\<close> in the scenarios: the serialised form
  of a list names its length, and the stored form of the failed message is fixed.
\<close>

definition exampleStringify :: "Message list \<Rightarrow> jsstring" where
  "exampleStringify ms = js ''messages:'' @ numberToString (length ms)"

definition exampleParseList :: "jsstring \<Rightarrow> Message list option" where
  "exampleParseList s = (if s = js ''messages:0'' then Some [] else None)"

definition exampleParse :: "jsstring \<Rightarrow> Message option" where
  "exampleParse s = (if s = js ''{failedMessage}'' then Some failedMessage else None)"

definition everyRetryReplies :: "nat \<Rightarrow> nat \<Rightarrow> RetryEnv" where
  "everyRetryReplies i = alwaysReplies"

text \<open>
  After the failed send the device goes offline and comes back online.
\<close>

definition disconnectedWorld :: World where
  "disconnectedWorld = connectivityChange exampleParse everyRetryReplies (Some False) failedWorld"

definition reconnectedWorld :: World where
  "reconnectedWorld = connectivityChange exampleParse everyRetryReplies (Some True) disconnectedWorld"

text \<open>
  An offline world whose durable store holds the failed message under a pending key,
  next to a cache entry.
\<close>

definition queuedWorld :: World where
  "queuedWorld = failedWorld\<lparr>isOnline := False,
     storage := [(js ''pending_message_1714557600000'', js ''{failedMessage}''),
                 (js ''cached_messages'', js ''messages:0'')]\<rparr>"

section \<open>Properties of the backoff policy\<close>

lemma getBackoffDelay_mono: "a \<le> b \<Longrightarrow> getBackoffDelay a \<le> getBackoffDelay b"
proof -
  assume "a \<le> b"
  then have "(2::nat) ^ a \<le> 2 ^ b"
    by (simp add: power_increasing)
  then have "INITIAL_RETRY_DELAY * 2 ^ a \<le> INITIAL_RETRY_DELAY * 2 ^ b"
    by (rule mult_le_mono2)
  then show ?thesis
    unfolding getBackoffDelay_def by (rule min.mono) simp
qed

lemma getBackoffDelay_cap: "4 \<le> attempt \<Longrightarrow> getBackoffDelay attempt = 30000"
proof -
  assume "4 \<le> attempt"
  then have "(2::nat) ^ 4 \<le> 2 ^ attempt"
    by (intro power_increasing) simp_all
  then have "(16::nat) \<le> 2 ^ attempt"
    by simp
  then have "2000 * (16::nat) \<le> 2000 * 2 ^ attempt"
    by (rule mult_le_mono2)
  then show ?thesis
    by (simp add: getBackoffDelay_def INITIAL_RETRY_DELAY_def)
qed

text \<open>
  Claim C1. For every attempt from 0 to 10 the delay is
  \<open>min (2000 * 2 ^ attempt) 30000\<close> milliseconds: 2000, 4000, 8000 and 16000 for the
  attempts 0 to 3. The delay is a function of the attempt alone, it never decreases
  when the attempt grows, and it is 30000 for every attempt from 4 on.
\<close>

theorem C1_backoff_delay:
  "(attempt \<le> 10 \<longrightarrow> getBackoffDelay attempt = min (2000 * 2 ^ attempt) 30000)
   \<and> getBackoffDelay 0 = 2000 \<and> getBackoffDelay 1 = 4000
   \<and> getBackoffDelay 2 = 8000 \<and> getBackoffDelay 3 = 16000
   \<and> (a \<le> b \<longrightarrow> getBackoffDelay a \<le> getBackoffDelay b)
   \<and> (4 \<le> attempt \<longrightarrow> getBackoffDelay attempt = 30000)"
  using getBackoffDelay_mono [of a b] getBackoffDelay_cap [of attempt]
  by (simp add: getBackoffDelay_def INITIAL_RETRY_DELAY_def)

theorem C1_backoff_delay_witness:
  "(7::nat) \<le> 10 \<and> getBackoffDelay 7 = min (2000 * 2 ^ 7) 30000
   \<and> (2::nat) \<le> 5 \<and> getBackoffDelay 2 \<le> getBackoffDelay 5
   \<and> (4::nat) \<le> 7 \<and> getBackoffDelay 7 = 30000"
  using C1_backoff_delay [of 7 2 5] by simp

section \<open>Properties of sendMessage\<close>

lemma trim_question: "trim (js '' What is promissory estoppel? '') = js ''What is promissory estoppel?''"
  by (simp add: trim_def js_def isWhiteSpace_def)

lemma id_user: "numberToString 1714557600000 = js ''1714557600000''"
  by (simp add: numberToString_def digits.simps js_def)

lemma id_assistant: "numberToString 1714557603000 = js ''1714557603000''"
  by (simp add: numberToString_def digits.simps js_def)

lemma status500: "aiRequestFailed 500 = js ''AI request failed with status 500''"
  by (simp add: aiRequestFailed_def numberToString_def digits.simps js_def)

lemma map_role_mapById:
  "map role (mapById i (\<lambda>msg. msg\<lparr>failed := a, pending := b\<rparr>) ms) = map role ms"
  by (simp add: mapById_def)

lemma sendTry_reply:
  assumes "userInsert env = None" and "freshSession env = Some s"
    and "relay env = Response status (Json em (Some (Some reply)))" and "ok status"
    and "reply \<noteq> []" and "assistantInsert env = None"
  shows "sendTry env cl thread userMessage w =
     (w\<lparr>db := db w @ [\<lparr>row_content = userMessage, row_role = User,
                        row_user_id = map_option user_id (session cl),
                        row_thread_id = thread_ident thread\<rparr>,
                       \<lparr>row_content = reply, row_role = Assistant,
                        row_user_id = map_option user_id (session cl),
                        row_thread_id = thread_ident thread\<rparr>],
         relayLog := relayLog w @ [sendRequest cl s userMessage],
         messages := messages w @ [newAssistantMessage env thread reply]\<rparr>, None)"
  using assms by (simp add: sendTry_def)

lemma sendTry_relay_failure:
  assumes "userInsert env = None" and "freshSession env = Some s"
    and "relay env = Response status body" and "\<not> ok status"
  shows "sendTry env cl thread userMessage w =
     (w\<lparr>db := db w @ [\<lparr>row_content = userMessage, row_role = User,
                        row_user_id = map_option user_id (session cl),
                        row_thread_id = thread_ident thread\<rparr>],
         relayLog := relayLog w @ [sendRequest cl s userMessage]\<rparr>,
      Some (JsError (relayFailureMessage env status body)))"
  using assms by (simp add: sendTry_def)

text \<open>
  Claim C5. When the input is empty after trimming (it is empty or holds white space
  only), \<^verbatim>\<open>sendMessage\<close> returns at its guard and changes nothing: no message is
  appended, no row is written to the remote store, no request goes to the relay, and
  no error is set.
\<close>

theorem C5_empty_input_is_noop:
  "trim (input w) = [] \<Longrightarrow>
     sendMessage env w = w
     \<and> messages (sendMessage env w) = messages w
     \<and> db (sendMessage env w) = db w
     \<and> relayLog (sendMessage env w) = relayLog w
     \<and> error (sendMessage env w) = error w"
  by (simp add: sendMessage_def split: option.splits)

theorem C5_empty_input_is_noop_witness:
  "trim (input (readyWorld\<lparr>input := js ''  '' @ [9, 10, 160, 8195]\<rparr>)) = []
   \<and> sendMessage replyEnv (readyWorld\<lparr>input := js ''  '' @ [9, 10, 160, 8195]\<rparr>)
       = readyWorld\<lparr>input := js ''  '' @ [9, 10, 160, 8195]\<rparr>
   \<and> messages (sendMessage replyEnv (readyWorld\<lparr>input := js ''  '' @ [9, 10, 160, 8195]\<rparr>)) = []
   \<and> db (sendMessage replyEnv (readyWorld\<lparr>input := js ''  '' @ [9, 10, 160, 8195]\<rparr>)) = []
   \<and> relayLog (sendMessage replyEnv (readyWorld\<lparr>input := js ''  '' @ [9, 10, 160, 8195]\<rparr>)) = []"
proof -
  have t: "trim (input (readyWorld\<lparr>input := js ''  '' @ [9, 10, 160, 8195]\<rparr>)) = []"
    by (simp add: trim_def js_def isWhiteSpace_def)
  show ?thesis
    using t C5_empty_input_is_noop [OF t, of replyEnv]
    by (simp add: readyWorld_def initialWorld_def)
qed

text \<open>
  Claim C6. A send that succeeds (a thread is loaded, the trimmed input is not empty,
  no send is in flight, both inserts succeed, a session exists and the relay answers
  with a 2xx status and a non-empty reply) appends exactly two messages to the
  conversation, the user's and then the assistant's, and leaves \<^verbatim>\<open>isLoading\<close> false. It
  writes two rows and sends one request.
\<close>

theorem C6_successful_send:
  assumes "currentThread w = Some thread" and "trim (input w) \<noteq> []" and "\<not> isLoading w"
    and "userInsert env = None" and "freshSession env = Some s"
    and "relay env = Response status (Json em (Some (Some reply)))" and "ok status"
    and "reply \<noteq> []" and "assistantInsert env = None"
  shows "messages (sendMessage env w) =
           messages w @ [newUserMessage env thread (trim (input w)),
                         newAssistantMessage env thread reply]
     \<and> map role (messages (sendMessage env w)) = map role (messages w) @ [User, Assistant]
     \<and> length (messages (sendMessage env w)) = length (messages w) + 2
     \<and> isLoading (sendMessage env w) = False
     \<and> length (db (sendMessage env w)) = length (db w) + 2
     \<and> length (relayLog (sendMessage env w)) = length (relayLog w) + 1"
  using assms(1-3)
  by (simp add: sendMessage_def Let_def sendTry_reply [OF assms(4-9)]
      newUserMessage_def newAssistantMessage_def)

theorem C6_successful_send_witness:
  "currentThread readyWorld = Some exampleThread \<and> trim (input readyWorld) \<noteq> []
   \<and> \<not> isLoading readyWorld \<and> userInsert replyEnv = None
   \<and> freshSession replyEnv = Some exampleSession
   \<and> relay replyEnv = Response 200 (Json None (Some (Some (js ''Promissory estoppel is...''))))
   \<and> ok 200 \<and> js ''Promissory estoppel is...'' \<noteq> [] \<and> assistantInsert replyEnv = None
   \<and> map role (messages (sendMessage replyEnv readyWorld)) = [User, Assistant]
   \<and> map content (messages (sendMessage replyEnv readyWorld)) =
        [js ''What is promissory estoppel?'', js ''Promissory estoppel is...'']
   \<and> isLoading (sendMessage replyEnv readyWorld) = False"
proof -
  have h: "currentThread readyWorld = Some exampleThread" "trim (input readyWorld) \<noteq> []"
    "\<not> isLoading readyWorld" "userInsert replyEnv = None"
    "freshSession replyEnv = Some exampleSession"
    "relay replyEnv = Response 200 (Json None (Some (Some (js ''Promissory estoppel is...''))))"
    "ok 200" "js ''Promissory estoppel is...'' \<noteq> []" "assistantInsert replyEnv = None"
    by (simp_all add: readyWorld_def initialWorld_def replyEnv_def ok_def trim_question)
      (simp_all add: js_def)
  have m: "messages readyWorld = []" "input readyWorld = js '' What is promissory estoppel? ''"
    by (simp_all add: readyWorld_def initialWorld_def)
  show ?thesis
    using h C6_successful_send [OF h]
    by (simp add: m trim_question newUserMessage_def newAssistantMessage_def)
qed

text \<open>
  Claim C4, as amended. A send whose relay call answers with a status outside 200 to
  299 marks the user's message \<^verbatim>\<open>failed = true\<close>, \<^verbatim>\<open>pending = false\<close>, appends no assistant
  message, writes no assistant row and shows one error, the message of the error thrown
  at line 368. That error is the \<^verbatim>\<open>message\<close> of the relay's body whenever that is a
  string that is not empty, and \<^verbatim>\<open>AI request failed with status <status>\<close> when it is the
  empty string. On the body \<^verbatim>\<open>null\<close> it is the message of the TypeError raised by reading
  \<^verbatim>\<open>errorData.message\<close>.
\<close>

theorem C4_relay_failure:
  assumes "currentThread w = Some thread" and "trim (input w) \<noteq> []" and "\<not> isLoading w"
    and "userInsert env = None" and "freshSession env = Some s"
    and "relay env = Response status body" and "\<not> ok status"
  shows "messages (sendMessage env w) =
           mapById (numberToString (nowUser env))
             (\<lambda>msg. msg\<lparr>failed := Some True, pending := Some False\<rparr>)
             (messages w @ [newUserMessage env thread (trim (input w))])
     \<and> last (messages (sendMessage env w)) =
           (newUserMessage env thread (trim (input w)))\<lparr>failed := Some True, pending := Some False\<rparr>
     \<and> map role (messages (sendMessage env w)) = map role (messages w) @ [User]
     \<and> db (sendMessage env w) =
           db w @ [\<lparr>row_content = trim (input w), row_role = User,
                    row_user_id = map_option user_id (session w),
                    row_thread_id = thread_ident thread\<rparr>]
     \<and> error (sendMessage env w) = Some (relayFailureMessage env status body)
     \<and> (body = Json (Some (JString m)) cm \<and> m \<noteq> [] \<longrightarrow> error (sendMessage env w) = Some m)
     \<and> (body = Json (Some (JString [])) cm \<longrightarrow>
          error (sendMessage env w) = Some (aiRequestFailed status))
     \<and> (body = JsonNull \<longrightarrow> error (sendMessage env w) = Some (nullRead env (js ''message'')))
     \<and> isLoading (sendMessage env w) = False"
proof -
  let ?n = "newUserMessage env thread (trim (input w))"
  let ?f = "\<lambda>msg. msg\<lparr>failed := Some True, pending := Some False\<rparr>"
  have w': "sendMessage env w =
      w\<lparr>input := [],
        db := db w @ [\<lparr>row_content = trim (input w), row_role = User,
                    row_user_id = map_option user_id (session w),
                    row_thread_id = thread_ident thread\<rparr>],
        relayLog := relayLog w @ [sendRequest w s (trim (input w))],
        error := Some (relayFailureMessage env status body),
        messages := mapById (msg_id ?n) ?f (messages w @ [?n]),
        isLoading := False\<rparr>"
    using assms(1-3)
    by (simp add: sendMessage_def Let_def sendTry_relay_failure [OF assms(4-7)])
  have i: "msg_id ?n = numberToString (nowUser env)"
    by (simp add: newUserMessage_def)
  have l: "last (mapById (msg_id ?n) ?f (messages w @ [?n])) = ?f ?n"
    by (simp add: mapById_def)
  have r: "map role (mapById (msg_id ?n) ?f (messages w @ [?n])) = map role (messages w) @ [User]"
    unfolding map_role_mapById by (simp add: newUserMessage_def)
  have e1: "body = Json (Some (JString m)) cm \<and> m \<noteq> [] \<longrightarrow>
      relayFailureMessage env status body = m"
    by (simp add: relayFailureMessage_def)
  have e2: "body = Json (Some (JString [])) cm \<longrightarrow>
      relayFailureMessage env status body = aiRequestFailed status"
    by (simp add: relayFailureMessage_def)
  have e3: "body = JsonNull \<longrightarrow> relayFailureMessage env status body = nullRead env (js ''message'')"
    by (simp add: relayFailureMessage_def)
  show ?thesis
    unfolding w' using i l r e1 e2 e3 by simp
qed

theorem C4_relay_failure_witness:
  "currentThread readyWorld = Some exampleThread \<and> trim (input readyWorld) \<noteq> []
   \<and> \<not> isLoading readyWorld \<and> userInsert rateLimitedEnv = None
   \<and> freshSession rateLimitedEnv = Some exampleSession
   \<and> relay rateLimitedEnv = Response 500 (Json (Some (JString (js ''rate limited''))) None)
   \<and> \<not> ok 500
   \<and> js ''rate limited'' \<noteq> []
   \<and> messages (sendMessage rateLimitedEnv readyWorld) = [failedMessage]
   \<and> failed failedMessage = Some True \<and> pending failedMessage = Some False
   \<and> map role (messages (sendMessage rateLimitedEnv readyWorld)) = [User]
   \<and> error (sendMessage rateLimitedEnv readyWorld) = Some (js ''rate limited'')"
proof -
  have h: "currentThread readyWorld = Some exampleThread" "trim (input readyWorld) \<noteq> []"
    "\<not> isLoading readyWorld" "userInsert rateLimitedEnv = None"
    "freshSession rateLimitedEnv = Some exampleSession"
    "relay rateLimitedEnv = Response 500 (Json (Some (JString (js ''rate limited''))) None)"
    "\<not> ok 500"
    by (simp_all add: readyWorld_def initialWorld_def rateLimitedEnv_def replyEnv_def ok_def
        trim_question)
      (simp add: js_def)
  have e: "js ''rate limited'' \<noteq> []"
    by (simp add: js_def)
  have m: "messages readyWorld = []" "input readyWorld = js '' What is promissory estoppel? ''"
    by (simp_all add: readyWorld_def initialWorld_def)
  have n: "nowUser rateLimitedEnv = 1714557600000"
    "isoUser rateLimitedEnv = js ''2024-05-01T10:00:00.000Z''"
    by (simp_all add: rateLimitedEnv_def replyEnv_def)
  have u: "mapById (js ''1714557600000'') (\<lambda>msg. msg\<lparr>failed := Some True, pending := Some False\<rparr>)
      [newUserMessage rateLimitedEnv exampleThread (js ''What is promissory estoppel?'')] = [failedMessage]"
    by (simp add: mapById_def newUserMessage_def failedMessage_def n id_user exampleThread_def)
  note t = C4_relay_failure [OF h, of "js ''rate limited''" None]
  have x: "error (sendMessage rateLimitedEnv readyWorld) = Some (js ''rate limited'')"
    using t [THEN conjunct2, THEN conjunct2, THEN conjunct2, THEN conjunct2, THEN conjunct2,
        THEN conjunct1] e
    by simp
  have y: "messages (sendMessage rateLimitedEnv readyWorld) = [failedMessage]"
    using t [THEN conjunct1] by (simp add: m n trim_question id_user u)
  have z: "map role (messages (sendMessage rateLimitedEnv readyWorld)) = [User]"
    using t [THEN conjunct2, THEN conjunct2, THEN conjunct1] by (simp add: m)
  have f: "failed failedMessage = Some True" "pending failedMessage = Some False"
    by (simp_all add: failedMessage_def)
  show ?thesis
    by (intro conjI h e x y z f)
qed

text \<open>
  The claim as first stated, that the error shown always equals the \<^verbatim>\<open>message\<close> of the
  body, fails when the relay answers 500 with the body \<^verbatim>\<open>{message: ""}\<close>: the error shown
  is \<^verbatim>\<open>AI request failed with status 500\<close>, not the empty string.
\<close>

theorem C4_empty_message_counterexample:
  "relay emptyMessageEnv = Response 500 (Json (Some (JString [])) None)
   \<and> errMessage (Json (Some (JString [])) None) = Some (JString [])
   \<and> error (sendMessage emptyMessageEnv readyWorld) = Some (js ''AI request failed with status 500'')
   \<and> error (sendMessage emptyMessageEnv readyWorld) \<noteq> Some []"
proof -
  have h: "currentThread readyWorld = Some exampleThread" "trim (input readyWorld) \<noteq> []"
    "\<not> isLoading readyWorld" "userInsert emptyMessageEnv = None"
    "freshSession emptyMessageEnv = Some exampleSession"
    "relay emptyMessageEnv = Response 500 (Json (Some (JString [])) None)"
    "\<not> ok 500"
    by (simp_all add: readyWorld_def initialWorld_def emptyMessageEnv_def replyEnv_def ok_def
        trim_question)
      (simp add: js_def)
  have j: "js ''AI request failed with status 500'' \<noteq> []"
    by (simp add: js_def)
  have "error (sendMessage emptyMessageEnv readyWorld) = Some (js ''AI request failed with status 500'')"
    using sendTry_relay_failure [OF h(4-7)] h(1-3)
    by (simp add: sendMessage_def Let_def relayFailureMessage_def status500)
  then show ?thesis
    using h(6) j by simp
qed

section \<open>Properties of retryMessage\<close>

lemma retryTry_fail:
  "\<not> attemptSucceeds e \<Longrightarrow>
   retryTry e cl message attempt w =
     (False, w\<lparr>sleeps := sleeps w @ attemptSleeps attempt,
               relayLog := relayLog w @ attemptRequests e cl\<rparr>)"
  by (auto simp: retryTry_def attemptSucceeds_def attemptRequests_def attemptSleeps_def Let_def
      split: option.splits RelayOutcome.splits Body.splits)

lemma retryTry_ok:
  "attemptSucceeds e \<Longrightarrow>
   retryTry e cl message attempt w =
     (True, w\<lparr>sleeps := sleeps w @ attemptSleeps attempt,
              relayLog := relayLog w @ attemptRequests e cl,
              db := db w @ [\<lparr>row_content = content message, row_role = role message,
                              row_user_id = map_option user_id (session cl),
                              row_thread_id = thread_id message\<rparr>],
              messages := mapById (msg_id message)
                 (\<lambda>msg. msg\<lparr>failed := Some False, pending := Some False,
                            retryCount := Some attempt\<rparr>) (messages w)\<rparr>)"
  by (auto simp: retryTry_def attemptSucceeds_def attemptRequests_def attemptSleeps_def Let_def
      split: option.splits RelayOutcome.splits Body.splits)

lemma retryTry_result: "fst (retryTry e cl message attempt w) = attemptSucceeds e"
  by (cases "attemptSucceeds e") (simp_all add: retryTry_fail retryTry_ok)

lemma retryMessage_terminal:
  "4 \<le> attempt \<Longrightarrow>
   retryMessage env cl message attempt w =
     w\<lparr>retryTrace := retryTrace w @ [(message, attempt)],
       error := Some (js ''Message failed after multiple attempts''),
       messages := mapById (msg_id message)
                (\<lambda>msg. msg\<lparr>failed := Some True, pending := Some False,
                           retryCount := Some attempt\<rparr>) (messages w)\<rparr>"
  by (simp add: retryMessage.simps [of env cl message attempt w] Let_def)

lemma retryMessage_fail_step:
  "attempt < 4 \<Longrightarrow> \<not> attemptSucceeds (env attempt) \<Longrightarrow>
   retryMessage env cl message attempt w =
     (retryMessage env cl message (attempt + 1)
        (w\<lparr>retryTrace := retryTrace w @ [(message, attempt)], isLoading := True, error := None,
           sleeps := sleeps w @ attemptSleeps attempt,
           relayLog := relayLog w @ attemptRequests (env attempt) cl\<rparr>))\<lparr>isLoading := False\<rparr>"
  by (simp add: retryMessage.simps [of env cl message attempt w] Let_def retryTry_fail)

lemma retryMessage_ok_step:
  "attempt < 4 \<Longrightarrow> attemptSucceeds (env attempt) \<Longrightarrow>
   retryMessage env cl message attempt w =
     w\<lparr>retryTrace := retryTrace w @ [(message, attempt)], isLoading := False, error := None,
           sleeps := sleeps w @ attemptSleeps attempt,
           relayLog := relayLog w @ attemptRequests (env attempt) cl,
           db := db w @ [\<lparr>row_content = content message, row_role = role message,
                              row_user_id = map_option user_id (session cl),
                              row_thread_id = thread_id message\<rparr>],
              messages := mapById (msg_id message)
                 (\<lambda>msg. msg\<lparr>failed := Some False, pending := Some False,
                            retryCount := Some attempt\<rparr>) (messages w)\<rparr>"
  by (simp add: retryMessage.simps [of env cl message attempt w] Let_def retryTry_ok)

lemma retry_exhausted:
  assumes "\<forall>k. attempt \<le> k \<and> k < 4 \<longrightarrow> \<not> attemptSucceeds (env k)" and "attempt \<le> 4"
  shows "retryMessage env cl message attempt w =
     w\<lparr>retryTrace := retryTrace w @ map (Pair message) [attempt..<5],
       isLoading := (if attempt = 4 then isLoading w else False),
       error := Some (js ''Message failed after multiple attempts''),
       sleeps := sleeps w @ concat (map attemptSleeps [attempt..<4]),
       relayLog := relayLog w @ concat (map (\<lambda>k. attemptRequests (env k) cl) [attempt..<4]),
       messages := mapById (msg_id message)
                (\<lambda>msg. msg\<lparr>failed := Some True, pending := Some False,
                           retryCount := Some 4\<rparr>) (messages w)\<rparr>"
  using assms
proof (induction "4 - attempt" arbitrary: attempt w)
  case 0
  then have a: "attempt = 4" by simp
  have u: "[4..<5] = [4::nat]"
    by (simp add: upt_conv_Cons)
  show ?case
    unfolding a by (simp add: retryMessage_terminal u)
next
  case (Suc n)
  then have lt: "attempt < 4" by simp
  have nf: "\<not> attemptSucceeds (env attempt)"
    using Suc.prems(1) lt by simp
  have h1: "n = 4 - (attempt + 1)"
    using Suc.hyps(2) by simp
  have h2: "\<forall>k. attempt + 1 \<le> k \<and> k < 4 \<longrightarrow> \<not> attemptSucceeds (env k)"
    using Suc.prems(1) by simp
  have h3: "attempt + 1 \<le> 4"
    using lt by simp
  have u5: "[attempt..<5] = attempt # [attempt + 1..<5]"
    using lt by (simp add: upt_conv_Cons)
  have u4: "[attempt..<4] = attempt # [attempt + 1..<4]"
    using lt by (simp add: upt_conv_Cons)
  show ?case
    unfolding retryMessage_fail_step [where env = env and attempt = attempt, OF lt nf]
      Suc.hyps(1) [OF h1 h2 h3] u5 u4
    using lt by simp
qed

lemma retry_succeeds_at:
  assumes "\<forall>j. attempt \<le> j \<and> j < k \<longrightarrow> \<not> attemptSucceeds (env j)"
    and "attemptSucceeds (env k)" and "attempt \<le> k" and "k < 4"
  shows "retryMessage env cl message attempt w =
     w\<lparr>retryTrace := retryTrace w @ map (Pair message) [attempt..<Suc k],
       isLoading := False,
       error := None,
       sleeps := sleeps w @ concat (map attemptSleeps [attempt..<Suc k]),
       relayLog := relayLog w @ concat (map (\<lambda>j. attemptRequests (env j) cl) [attempt..<Suc k]),
       db := db w @ [\<lparr>row_content = content message, row_role = role message,
                       row_user_id = map_option user_id (session cl),
                       row_thread_id = thread_id message\<rparr>],
       messages := mapById (msg_id message)
                (\<lambda>msg. msg\<lparr>failed := Some False, pending := Some False,
                           retryCount := Some k\<rparr>) (messages w)\<rparr>"
  using assms
proof (induction "k - attempt" arbitrary: attempt w)
  case 0
  then have a: "attempt = k" by simp
  show ?case
    unfolding a using 0 by (simp add: retryMessage_ok_step)
next
  case (Suc n)
  then have lt: "attempt < k" by simp
  then have lt4: "attempt < 4" using Suc.prems(4) by simp
  have nf: "\<not> attemptSucceeds (env attempt)"
    using Suc.prems(1) lt by simp
  have h1: "n = k - (attempt + 1)"
    using Suc.hyps(2) by simp
  have h2: "\<forall>j. attempt + 1 \<le> j \<and> j < k \<longrightarrow> \<not> attemptSucceeds (env j)"
    using Suc.prems(1) by simp
  have h3: "attempt + 1 \<le> k"
    using lt by simp
  have u: "[attempt..<Suc k] = attempt # [attempt + 1..<Suc k]"
    using lt by (simp add: upt_conv_Cons)
  show ?case
    unfolding retryMessage_fail_step [where env = env and attempt = attempt, OF lt4 nf]
      Suc.hyps(1) [OF h1 h2 Suc.prems(2) h3 Suc.prems(4)] u
    by simp
qed

lemma mapById_flags:
  "\<forall>m \<in> set (mapById i (\<lambda>msg. msg\<lparr>failed := Some b, pending := Some False, retryCount := Some k\<rparr>) ms).
     msg_id m = i \<longrightarrow> failed m = Some b \<and> pending m = Some False \<and> retryCount m = Some k"
proof (intro ballI impI)
  fix m
  assume a: "m \<in> set (mapById i (\<lambda>msg. msg\<lparr>failed := Some b, pending := Some False, retryCount := Some k\<rparr>) ms)"
    and c: "msg_id m = i"
  from a have "m \<in> (\<lambda>msg. if msg_id msg = i
      then msg\<lparr>failed := Some b, pending := Some False, retryCount := Some k\<rparr> else msg) ` set ms"
    unfolding mapById_def by (simp only: set_map)
  then obtain x where x: "m = (if msg_id x = i
      then x\<lparr>failed := Some b, pending := Some False, retryCount := Some k\<rparr> else x)"
    by (rule imageE)
  show "failed m = Some b \<and> pending m = Some False \<and> retryCount m = Some k"
    using x c by (cases "msg_id x = i") simp_all
qed

lemma mapById_length: "length (mapById i f ms) = length ms"
  by (simp add: mapById_def)

lemma upt_0_5: "[0..<5] = [0, 1, 2, 3, 4::nat]"
  by (simp add: upt_conv_Cons)

lemma upt_0_4: "[0..<4] = [0, 1, 2, 3::nat]"
  by (simp add: upt_conv_Cons)

lemma sleeps_0_4: "concat (map attemptSleeps [0, 1, 2, 3]) = [4000, 8000, 16000]"
  by (simp add: attemptSleeps_def getBackoffDelay_def INITIAL_RETRY_DELAY_def)

lemma attemptRequests_length: "r_session e \<noteq> None \<Longrightarrow> length (attemptRequests e cl) = 1"
  by (auto simp: attemptRequests_def)

lemma failedWorld_eq:
  "failedWorld = readyWorld\<lparr>input := [], messages := [failedMessage],
     error := Some (js ''rate limited''),
     db := [\<lparr>row_content = js ''What is promissory estoppel?'', row_role = User,
             row_user_id = Some (js ''u1''), row_thread_id = js ''t1''\<rparr>],
     relayLog := [sendRequest readyWorld exampleSession (js ''What is promissory estoppel?'')]\<rparr>"
  unfolding failedWorld_def sendMessage_def
  apply (simp add: readyWorld_def initialWorld_def trim_question Let_def)
  apply (simp add: rateLimitedEnv_def replyEnv_def sendTry_def ok_def relayFailureMessage_def id_user
      exampleThread_def exampleSession_def mapById_def failedMessage_def Let_def newUserMessage_def)
  apply (simp add: js_def)
  done


text \<open>
  Claim C2. When every attempt fails (the relay always fails, or anything else in the
  \<^verbatim>\<open>try\<close> block throws), a retry started at attempt 0 makes exactly four attempts, the
  attempts 0 to 3, sleeping 4000, 8000 and 16000 ms before the last three; the call
  with attempt 4 makes no attempt and puts the message in the terminal state
  \<^verbatim>\<open>failed = true\<close>, \<^verbatim>\<open>pending = false\<close>, \<^verbatim>\<open>retryCount = 4\<close>. With a session at hand, four
  requests go to the relay. Nothing is written to the remote store.
\<close>

theorem C2_retries_exhausted:
  assumes "\<forall>k<4. \<not> attemptSucceeds (env k)"
  shows "messages (retryMessage env cl message 0 w) =
           mapById (msg_id message)
             (\<lambda>msg. msg\<lparr>failed := Some True, pending := Some False, retryCount := Some 4\<rparr>)
             (messages w)
     \<and> (\<forall>m \<in> set (messages (retryMessage env cl message 0 w)).
           msg_id m = msg_id message \<longrightarrow>
             failed m = Some True \<and> pending m = Some False \<and> retryCount m = Some 4)
     \<and> retryTrace (retryMessage env cl message 0 w) =
           retryTrace w @ [(message, 0), (message, 1), (message, 2), (message, 3), (message, 4)]
     \<and> sleeps (retryMessage env cl message 0 w) = sleeps w @ [4000, 8000, 16000]
     \<and> ((\<forall>k<4. r_session (env k) \<noteq> None) \<longrightarrow>
           length (relayLog (retryMessage env cl message 0 w)) = length (relayLog w) + 4)
     \<and> db (retryMessage env cl message 0 w) = db w
     \<and> error (retryMessage env cl message 0 w) = Some (js ''Message failed after multiple attempts'')"
proof -
  have "\<forall>k. 0 \<le> k \<and> k < 4 \<longrightarrow> \<not> attemptSucceeds (env k)"
    using assms by simp
  from retry_exhausted [OF this, of cl message w]
  have e: "retryMessage env cl message 0 w =
     w\<lparr>retryTrace := retryTrace w @ [(message, 0), (message, 1), (message, 2), (message, 3), (message, 4)],
       isLoading := False,
       error := Some (js ''Message failed after multiple attempts''),
       sleeps := sleeps w @ [4000, 8000, 16000],
       relayLog := relayLog w @ concat (map (\<lambda>k. attemptRequests (env k) cl) [0, 1, 2, 3]),
       messages := mapById (msg_id message)
                (\<lambda>msg. msg\<lparr>failed := Some True, pending := Some False,
                           retryCount := Some 4\<rparr>) (messages w)\<rparr>"
    unfolding upt_0_5 upt_0_4 sleeps_0_4 by simp
  have l: "(\<forall>k<4. r_session (env k) \<noteq> None) \<longrightarrow>
      length (concat (map (\<lambda>k. attemptRequests (env k) cl) [0, 1, 2, 3])) = 4"
    by (simp add: attemptRequests_length)
  have m: "messages (retryMessage env cl message 0 w) =
           mapById (msg_id message)
             (\<lambda>msg. msg\<lparr>failed := Some True, pending := Some False, retryCount := Some 4\<rparr>)
             (messages w)"
    unfolding e by simp
  have f: "\<forall>m \<in> set (messages (retryMessage env cl message 0 w)).
           msg_id m = msg_id message \<longrightarrow>
             failed m = Some True \<and> pending m = Some False \<and> retryCount m = Some 4"
    unfolding m by (rule mapById_flags)
  have t: "retryTrace (retryMessage env cl message 0 w) =
           retryTrace w @ [(message, 0), (message, 1), (message, 2), (message, 3), (message, 4)]"
    unfolding e by simp
  have s: "sleeps (retryMessage env cl message 0 w) = sleeps w @ [4000, 8000, 16000]"
    unfolding e by simp
  have r: "(\<forall>k<4. r_session (env k) \<noteq> None) \<longrightarrow>
           length (relayLog (retryMessage env cl message 0 w)) = length (relayLog w) + 4"
    unfolding e using l by simp
  have d: "db (retryMessage env cl message 0 w) = db w"
    unfolding e by simp
  have x: "error (retryMessage env cl message 0 w) = Some (js ''Message failed after multiple attempts'')"
    unfolding e by simp
  from m f t s r d x show ?thesis
    by - (intro conjI, assumption+)
qed


theorem C2_retries_exhausted_witness:
  "\<not> attemptSucceeds (alwaysDown 0) \<and> \<not> attemptSucceeds (alwaysDown 1)
   \<and> \<not> attemptSucceeds (alwaysDown 2) \<and> \<not> attemptSucceeds (alwaysDown 3)
   \<and> r_session (alwaysDown 0) \<noteq> None \<and> r_session (alwaysDown 1) \<noteq> None
   \<and> r_session (alwaysDown 2) \<noteq> None \<and> r_session (alwaysDown 3) \<noteq> None
   \<and> messages (retryMessage alwaysDown failedWorld failedMessage 0 failedWorld) =
        [failedMessage\<lparr>retryCount := Some 4\<rparr>]
   \<and> failed (failedMessage\<lparr>retryCount := Some 4\<rparr>) = Some True
   \<and> pending (failedMessage\<lparr>retryCount := Some 4\<rparr>) = Some False
   \<and> sleeps (retryMessage alwaysDown failedWorld failedMessage 0 failedWorld) = [4000, 8000, 16000]
   \<and> length (relayLog (retryMessage alwaysDown failedWorld failedMessage 0 failedWorld)) = 5"
proof -
  have h: "\<forall>k<4. \<not> attemptSucceeds (alwaysDown k)"
    by (simp add: alwaysDown_def retryDown_def attemptSucceeds_def ok_def)
  have g: "\<forall>k<4. r_session (alwaysDown k) \<noteq> None"
    by (simp add: alwaysDown_def retryDown_def)
  have m: "mapById (msg_id failedMessage)
      (\<lambda>msg. msg\<lparr>failed := Some True, pending := Some False, retryCount := Some 4\<rparr>)
      [failedMessage] = [failedMessage\<lparr>retryCount := Some 4\<rparr>]"
    by (simp add: mapById_def failedMessage_def)
  have f: "messages failedWorld = [failedMessage]" "sleeps failedWorld = []"
    "length (relayLog failedWorld) = 1"
    by (simp_all add: failedWorld_eq readyWorld_def initialWorld_def)
  have d: "\<not> attemptSucceeds (alwaysDown k)" "r_session (alwaysDown k) \<noteq> None" for k
    by (simp_all add: alwaysDown_def retryDown_def attemptSucceeds_def ok_def)
  show ?thesis
    using g C2_retries_exhausted [OF h, of failedWorld failedMessage failedWorld]
    by (simp add: f m d)
qed

text \<open>
  Claim C7. When the attempts before \<open>k\<close> fail and attempt \<open>k\<close> (below 4) succeeds, the
  retry ends with the message at \<^verbatim>\<open>failed = false\<close>, \<^verbatim>\<open>pending = false\<close> and
  \<^verbatim>\<open>retryCount = k\<close>, the number of the attempt that succeeded; no error is left set.
\<close>

theorem C7_retry_success:
  assumes "\<forall>j<k. \<not> attemptSucceeds (env j)" and "attemptSucceeds (env k)" and "k < 4"
  shows "messages (retryMessage env cl message 0 w) =
           mapById (msg_id message)
             (\<lambda>msg. msg\<lparr>failed := Some False, pending := Some False, retryCount := Some k\<rparr>)
             (messages w)
     \<and> (\<forall>m \<in> set (messages (retryMessage env cl message 0 w)).
           msg_id m = msg_id message \<longrightarrow>
             failed m = Some False \<and> pending m = Some False \<and> retryCount m = Some k)
     \<and> retryTrace (retryMessage env cl message 0 w) = retryTrace w @ map (Pair message) [0..<Suc k]
     \<and> error (retryMessage env cl message 0 w) = None
     \<and> isLoading (retryMessage env cl message 0 w) = False"
proof -
  have "\<forall>j. 0 \<le> j \<and> j < k \<longrightarrow> \<not> attemptSucceeds (env j)"
    using assms(1) by simp
  note e = retry_succeeds_at [OF this assms(2) le0 assms(3), of cl message w]
  have m: "messages (retryMessage env cl message 0 w) =
           mapById (msg_id message)
             (\<lambda>msg. msg\<lparr>failed := Some False, pending := Some False, retryCount := Some k\<rparr>)
             (messages w)"
    unfolding e by simp
  have f: "\<forall>m \<in> set (messages (retryMessage env cl message 0 w)).
           msg_id m = msg_id message \<longrightarrow>
             failed m = Some False \<and> pending m = Some False \<and> retryCount m = Some k"
    unfolding m by (rule mapById_flags)
  have t: "retryTrace (retryMessage env cl message 0 w) = retryTrace w @ map (Pair message) [0..<Suc k]"
    unfolding e by simp
  have x: "error (retryMessage env cl message 0 w) = None"
    unfolding e by simp
  have l: "isLoading (retryMessage env cl message 0 w) = False"
    unfolding e by simp
  from m f t x l show ?thesis
    by - (intro conjI, assumption+)
qed

theorem C7_retry_success_witness:
  "\<not> attemptSucceeds (downTwice 0) \<and> \<not> attemptSucceeds (downTwice 1)
   \<and> attemptSucceeds (downTwice 2) \<and> (2::nat) < 4
   \<and> messages (retryMessage downTwice failedWorld failedMessage 0 failedWorld) =
        [failedMessage\<lparr>failed := Some False, retryCount := Some 2\<rparr>]
   \<and> pending (failedMessage\<lparr>failed := Some False, retryCount := Some 2\<rparr>) = Some False
   \<and> error (retryMessage downTwice failedWorld failedMessage 0 failedWorld) = None"
proof -
  have h: "\<forall>j<2. \<not> attemptSucceeds (downTwice j)"
    by (simp add: downTwice_def retryDown_def attemptSucceeds_def ok_def)
  have g: "attemptSucceeds (downTwice 2)"
    by (simp add: downTwice_def retryReplies_def attemptSucceeds_def ok_def)
  have k: "(2::nat) < 4"
    by simp
  have m: "mapById (msg_id failedMessage)
      (\<lambda>msg. msg\<lparr>failed := Some False, pending := Some False, retryCount := Some 2\<rparr>)
      [failedMessage] = [failedMessage\<lparr>failed := Some False, retryCount := Some 2\<rparr>]"
    by (simp add: mapById_def failedMessage_def)
  have f: "messages failedWorld = [failedMessage]"
    by (simp add: failedWorld_eq readyWorld_def initialWorld_def)
  have d: "\<not> attemptSucceeds (downTwice 0)" "\<not> attemptSucceeds (downTwice 1)"
    by (simp_all add: downTwice_def retryDown_def attemptSucceeds_def ok_def)
  show ?thesis
    using d g C7_retry_success [OF h g k, of failedWorld failedMessage failedWorld]
    by (simp add: f m)
qed

lemma retryMessage_messages:
  "\<exists>b k. messages (retryMessage env cl message attempt w) =
     mapById (msg_id message)
       (\<lambda>msg. msg\<lparr>failed := Some b, pending := Some False, retryCount := Some k\<rparr>) (messages w)"
proof (induction env cl message attempt w rule: retryMessage.induct)
  case (1 env cl message attempt w)
  show ?case
  proof (cases "4 \<le> attempt")
    case True
    have "messages (retryMessage env cl message attempt w) =
        mapById (msg_id message)
          (\<lambda>msg. msg\<lparr>failed := Some True, pending := Some False, retryCount := Some attempt\<rparr>)
          (messages w)"
      by (simp add: retryMessage_terminal [OF True])
    then show ?thesis
      by (intro exI)
  next
    case False
    then have lt: "attempt < 4" by simp
    show ?thesis
    proof (cases "attemptSucceeds (env attempt)")
      case True
      have "messages (retryMessage env cl message attempt w) =
          mapById (msg_id message)
            (\<lambda>msg. msg\<lparr>failed := Some False, pending := Some False, retryCount := Some attempt\<rparr>)
            (messages w)"
        by (simp add: retryMessage_ok_step [where env = env and attempt = attempt, OF lt True])
      then show ?thesis
        by (intro exI)
    next
      case False
      have r: "retryTry (env attempt) cl message attempt
          (w\<lparr>retryTrace := retryTrace w @ [(message, attempt)], isLoading := True, error := None\<rparr>) =
         (False, w\<lparr>retryTrace := retryTrace w @ [(message, attempt)], isLoading := True, error := None,
           sleeps := sleeps w @ attemptSleeps attempt,
           relayLog := relayLog w @ attemptRequests (env attempt) cl\<rparr>)"
        using False by (simp add: retryTry_fail)
      from "1.IH" [OF refl _ r [symmetric] refl] lt
      show ?thesis
        unfolding retryMessage_fail_step [where env = env and attempt = attempt, OF lt False]
        by simp
    qed
  qed
qed

lemma mapById_cases:
  assumes "m \<in> set (mapById i f ms)"
  obtains "m \<in> set ms" | x where "x \<in> set ms" and "m = f x"
proof -
  from assms have "m \<in> (\<lambda>msg. if msg_id msg = i then f msg else msg) ` set ms"
    unfolding mapById_def by (simp only: set_map)
  then obtain x where x: "x \<in> set ms" "m = (if msg_id x = i then f x else x)"
    by (rule imageE)
  show thesis
  proof (cases "msg_id x = i")
    case True
    with x that(2) show thesis by simp
  next
    case False
    with x that(1) show thesis by simp
  qed
qed

lemma sendTry_messages:
  "(snd (sendTry env cl thread userMessage w) \<noteq> None \<longrightarrow>
      messages (fst (sendTry env cl thread userMessage w)) = messages w)
   \<and> (snd (sendTry env cl thread userMessage w) = None \<longrightarrow>
      (\<exists>reply. messages (fst (sendTry env cl thread userMessage w)) =
         messages w @ [newAssistantMessage env thread reply]))"
  by (simp add: sendTry_def Let_def split: option.splits RelayOutcome.splits Body.splits) blast

text \<open>
  Claim C3, checked on \<^verbatim>\<open>retryMessage\<close>. The send of the scenario failed and left one user
  message marked failed and one user row. Its retry succeeds at the first attempt: one
  request goes to the relay and the relay replies. The message is then unmarked, but the
  reply is dropped: the conversation still holds the user message alone, and the row
  written is a second copy of the user row. No assistant message exists after the
  successful retry, where the claim asks for exactly one.
\<close>

theorem C3_retry_creates_no_assistant_message:
  "attemptSucceeds (alwaysReplies 0)
   \<and> map role (messages failedWorld) = [User]
   \<and> map failed (messages (retryMessage alwaysReplies failedWorld failedMessage 0 failedWorld)) = [Some False]
   \<and> map role (messages (retryMessage alwaysReplies failedWorld failedMessage 0 failedWorld)) = [User]
   \<and> db (retryMessage alwaysReplies failedWorld failedMessage 0 failedWorld) =
        db failedWorld @ [\<lparr>row_content = js ''What is promissory estoppel?'', row_role = User,
                           row_user_id = Some (js ''u1''), row_thread_id = js ''t1''\<rparr>]
   \<and> map row_role (db (retryMessage alwaysReplies failedWorld failedMessage 0 failedWorld)) = [User, User]
   \<and> length (relayLog (retryMessage alwaysReplies failedWorld failedMessage 0 failedWorld)) =
        length (relayLog failedWorld) + 1"
proof -
  have g: "attemptSucceeds (alwaysReplies 0)"
    by (simp add: alwaysReplies_def retryReplies_def attemptSucceeds_def ok_def)
  have l: "(0::nat) < 4"
    by simp
  have r: "attemptRequests (alwaysReplies 0) failedWorld = [retryRequest failedWorld exampleSession]"
    by (simp add: attemptRequests_def alwaysReplies_def retryReplies_def)
  have f: "messages failedWorld = [failedMessage]" "session failedWorld = Some exampleSession"
    "db failedWorld = [\<lparr>row_content = js ''What is promissory estoppel?'', row_role = User,
             row_user_id = Some (js ''u1''), row_thread_id = js ''t1''\<rparr>]"
    by (simp_all add: failedWorld_eq readyWorld_def initialWorld_def)
  show ?thesis
    using g
    unfolding retryMessage_ok_step [where env = alwaysReplies and attempt = 0, OF l g] r
    by (simp add: f mapById_def failedMessage_def exampleSession_def)
qed

section \<open>The delivery flags are never both set\<close>

lemma sendMessage_messages:
  "messages (sendMessage env w) = messages w
   \<or> (\<exists>thread reply. messages (sendMessage env w) =
         messages w @ [newUserMessage env thread (trim (input w)),
                       newAssistantMessage env thread reply])
   \<or> (\<exists>thread. messages (sendMessage env w) =
         mapById (numberToString (nowUser env))
           (\<lambda>msg. msg\<lparr>failed := Some True, pending := Some False\<rparr>)
           (messages w @ [newUserMessage env thread (trim (input w))]))"
proof (cases "currentThread w")
  case None
  then have "sendMessage env w = w"
    by (simp add: sendMessage_def)
  then show ?thesis by simp
next
  case (Some thread)
  show ?thesis
  proof (cases "trim (input w) = [] \<or> isLoading w")
    case True
    then have "sendMessage env w = w"
      using Some by (simp add: sendMessage_def)
    then show ?thesis by simp
  next
    case False
    define n where "n = newUserMessage env thread (trim (input w))"
    define w2 where "w2 = w\<lparr>input := [], isLoading := True, messages := messages w @ [n]\<rparr>"
    obtain w3 t where r: "sendTry env w thread (trim (input w)) w2 = (w3, t)"
      by (rule prod.exhaust)
    have i: "msg_id n = numberToString (nowUser env)"
      by (simp add: n_def newUserMessage_def)
    have m2: "messages w2 = messages w @ [n]"
      by (simp add: w2_def)
    note tm = sendTry_messages [of env w thread "trim (input w)" w2, unfolded r fst_conv snd_conv m2]
    show ?thesis
    proof (cases t)
      case None
      then have s: "sendMessage env w = w3\<lparr>isLoading := False\<rparr>"
        using Some False r by (simp add: sendMessage_def Let_def n_def w2_def)
      from tm None obtain reply where
        "messages w3 = (messages w @ [n]) @ [newAssistantMessage env thread reply]"
        by blast
      then have "messages (sendMessage env w) =
          messages w @ [newUserMessage env thread (trim (input w)),
                        newAssistantMessage env thread reply]"
        unfolding s by (simp add: n_def)
      then show ?thesis by blast
    next
      case (Some err)
      then have s: "messages (sendMessage env w) =
          mapById (msg_id n) (\<lambda>msg. msg\<lparr>failed := Some True, pending := Some False\<rparr>) (messages w3)"
        using \<open>currentThread w = Some thread\<close> False r
        by (simp add: sendMessage_def Let_def n_def w2_def)
      from tm Some have "messages w3 = messages w @ [n]"
        by simp
      then have "messages (sendMessage env w) =
          mapById (numberToString (nowUser env))
           (\<lambda>msg. msg\<lparr>failed := Some True, pending := Some False\<rparr>)
           (messages w @ [newUserMessage env thread (trim (input w))])"
        unfolding s i by (simp add: n_def)
      then show ?thesis by blast
    qed
  qed
qed

lemma sendMessage_flags:
  assumes "m \<in> set (messages (sendMessage env w))"
  shows "m \<in> set (messages w) \<or> (pending m = None \<and> failed m = None)
     \<or> (pending m = Some False \<and> failed m = Some True)"
proof -
  consider (same) "messages (sendMessage env w) = messages w"
    | (sent) thread reply where "messages (sendMessage env w) =
         messages w @ [newUserMessage env thread (trim (input w)),
                       newAssistantMessage env thread reply]"
    | (failed) thread where "messages (sendMessage env w) =
         mapById (numberToString (nowUser env))
           (\<lambda>msg. msg\<lparr>failed := Some True, pending := Some False\<rparr>)
           (messages w @ [newUserMessage env thread (trim (input w))])"
    using sendMessage_messages [of env w] by blast
  then show ?thesis
  proof cases
    case same
    with assms show ?thesis by simp
  next
    case sent
    with assms have "m \<in> set (messages w @ [newUserMessage env thread (trim (input w)),
                       newAssistantMessage env thread reply])"
      by simp
    then have "m \<in> set (messages w) \<or> m = newUserMessage env thread (trim (input w))
        \<or> m = newAssistantMessage env thread reply"
      unfolding set_append by (simp only: Un_iff list.set insert_iff empty_iff) blast
    then show ?thesis
      by (elim disjE) (simp_all add: newUserMessage_def newAssistantMessage_def)
  next
    case failed
    with assms have "m \<in> set (mapById (numberToString (nowUser env))
           (\<lambda>msg. msg\<lparr>failed := Some True, pending := Some False\<rparr>)
           (messages w @ [newUserMessage env thread (trim (input w))]))"
      by simp
    then show ?thesis
    proof (cases rule: mapById_cases)
      case 1
      then have "m \<in> set (messages w) \<or> m = newUserMessage env thread (trim (input w))"
        unfolding set_append by (simp only: Un_iff list.set insert_iff empty_iff) blast
      then show ?thesis
        by (elim disjE) (simp_all add: newUserMessage_def)
    next
      case (2 x)
      then show ?thesis by simp
    qed
  qed
qed

lemma retryMessage_flags:
  assumes "m \<in> set (messages (retryMessage renv cl message attempt w))"
  shows "m \<in> set (messages w) \<or> (pending m = Some False \<and> failed m \<noteq> None)"
proof -
  obtain b k where "messages (retryMessage renv cl message attempt w) =
     mapById (msg_id message)
       (\<lambda>msg. msg\<lparr>failed := Some b, pending := Some False, retryCount := Some k\<rparr>) (messages w)"
    using retryMessage_messages by blast
  with assms have "m \<in> set (mapById (msg_id message)
       (\<lambda>msg. msg\<lparr>failed := Some b, pending := Some False, retryCount := Some k\<rparr>) (messages w))"
    by simp
  then show ?thesis
    by (cases rule: mapById_cases) simp_all
qed

text \<open>
  Claim C9. Every message in the conversation after \<^verbatim>\<open>sendMessage\<close> is a message that was
  there before, or carries no flag at all (the optimistic append and the reply), or has
  \<^verbatim>\<open>pending = false\<close> with \<^verbatim>\<open>failed = true\<close> (the failure transition). Every message after
  \<^verbatim>\<open>retryMessage\<close>, whatever the attempt and the answers, was there before or has
  \<^verbatim>\<open>pending = false\<close> with \<^verbatim>\<open>failed\<close> set or cleared (terminal failure, successful retry).
  Hence both operations keep the invariant that no message has \<^verbatim>\<open>pending\<close> and \<^verbatim>\<open>failed\<close>
  both true.
\<close>

theorem C9_flags_exclusive:
  "(\<forall>m \<in> set (messages (sendMessage env w)).
      m \<in> set (messages w) \<or> (pending m = None \<and> failed m = None)
      \<or> (pending m = Some False \<and> failed m = Some True))
   \<and> (\<forall>m \<in> set (messages (retryMessage renv cl message attempt w)).
      m \<in> set (messages w) \<or> (pending m = Some False \<and> failed m \<noteq> None))
   \<and> ((\<forall>m \<in> set (messages w). flagsExclusive m) \<longrightarrow>
        (\<forall>m \<in> set (messages (sendMessage env w)). flagsExclusive m)
        \<and> (\<forall>m \<in> set (messages (retryMessage renv cl message attempt w)). flagsExclusive m))"
proof (intro conjI impI ballI)
  fix m assume "m \<in> set (messages (sendMessage env w))"
  then show "m \<in> set (messages w) \<or> (pending m = None \<and> failed m = None)
      \<or> (pending m = Some False \<and> failed m = Some True)"
    by (rule sendMessage_flags)
next
  fix m assume "m \<in> set (messages (retryMessage renv cl message attempt w))"
  then show "m \<in> set (messages w) \<or> (pending m = Some False \<and> failed m \<noteq> None)"
    by (rule retryMessage_flags)
next
  fix m assume inv: "\<forall>m \<in> set (messages w). flagsExclusive m"
    and "m \<in> set (messages (sendMessage env w))"
  from sendMessage_flags [OF this(2)] inv show "flagsExclusive m"
    by (elim disjE) (simp_all add: flagsExclusive_def)
next
  fix m assume inv: "\<forall>m \<in> set (messages w). flagsExclusive m"
    and "m \<in> set (messages (retryMessage renv cl message attempt w))"
  from retryMessage_flags [OF this(2)] inv show "flagsExclusive m"
    by (elim disjE) (simp_all add: flagsExclusive_def)
qed

theorem C9_flags_exclusive_witness:
  "list_all flagsExclusive (messages (failedWorld\<lparr>input := js ''again''\<rparr>))
   \<and> list_all flagsExclusive
        (messages (sendMessage replyEnv (failedWorld\<lparr>input := js ''again''\<rparr>)))
   \<and> list_all flagsExclusive
        (messages (retryMessage downTwice failedWorld failedMessage 0
           (failedWorld\<lparr>input := js ''again''\<rparr>)))
   \<and> list_all (\<lambda>m. m \<in> set (messages (failedWorld\<lparr>input := js ''again''\<rparr>))
                    \<or> (pending m = Some False \<and> failed m \<noteq> None))
        (messages (retryMessage downTwice failedWorld failedMessage 0
           (failedWorld\<lparr>input := js ''again''\<rparr>)))"
proof -
  have m: "messages (failedWorld\<lparr>input := js ''again''\<rparr>) = [failedMessage]"
    by (simp add: failedWorld_eq)
  have h: "\<forall>m \<in> set (messages (failedWorld\<lparr>input := js ''again''\<rparr>)). flagsExclusive m"
    unfolding m by (simp add: flagsExclusive_def failedMessage_def)
  note t = C9_flags_exclusive [of replyEnv "failedWorld\<lparr>input := js ''again''\<rparr>" downTwice
      failedWorld failedMessage 0]
  note a = t [THEN conjunct2, THEN conjunct1]
  note b = t [THEN conjunct2, THEN conjunct2, THEN mp, OF h]
  show ?thesis
    unfolding list_all_iff
    by (intro conjI h a b [THEN conjunct1] b [THEN conjunct2])
qed

section \<open>Properties of the messages store\<close>

lemma cache_key_differs: "js ''cached_messages'' \<noteq> js ''cached_messages_'' @ t"
  by (simp add: js_def)

lemma getItem_setItem:
  "getItem (setItem st key v) key' = (if key' = key then Some v else getItem st key')"
  by (simp add: getItem_def setItem_def update_conv')

lemma getItem_removeItem:
  "getItem (removeItem st key) key' = (if key' = key then None else getItem st key')"
  by (simp add: getItem_def removeItem_def delete_conv')

lemma setMessages_other_keys:
  "key \<noteq> js ''cached_messages'' \<Longrightarrow>
   getItem (storage (setMessages stringify writeOk ms w)) key = getItem (storage w) key"
  by (simp add: setMessages_def Let_def getItem_setItem)

lemma syncMessages_store:
  "getItem (storage w) (js ''cached_messages_'' @ t) = getItem (storage w') (js ''cached_messages_'' @ t)
   \<Longrightarrow> storeMessages w = storeMessages w'
   \<Longrightarrow> storeMessages (syncMessages stringify parseList selected writeOk t w) =
       storeMessages (syncMessages stringify parseList selected writeOk t w')"
  by (simp add: syncMessages_def Let_def split: option.splits SelectResult.splits)

text \<open>
  Claim C10. \<^verbatim>\<open>setMessages\<close> writes the durable store under the constant key
  \<^verbatim>\<open>cached_messages\<close> only (there it stores the serialised list when the write succeeds),
  and that key differs from \<^verbatim>\<open>cached_messages_<t>\<close> for every thread id \<open>t\<close>: every other
  key, so every per-thread key, reads as before. \<^verbatim>\<open>syncMessages(t)\<close> reads the key
  \<^verbatim>\<open>cached_messages_<t>\<close> only (from two worlds that agree on that key and on the
  in-memory list it leaves the same list), so what it leaves in the store does not
  depend on the snapshot \<^verbatim>\<open>setMessages\<close> saved: with the in-memory list reset to any value, the result
  is the same as if \<^verbatim>\<open>setMessages\<close> had not been called. In particular, from an empty
  list, with nothing under the per-thread key and the remote select failing, the saved
  list is not restored.
\<close>

theorem C10_setMessages_cache_not_read:
  "js ''cached_messages'' \<noteq> js ''cached_messages_'' @ t
   \<and> getItem (storage (setMessages stringify True ms w)) (js ''cached_messages'') = Some (stringify ms)
   \<and> (\<forall>key. key \<noteq> js ''cached_messages'' \<longrightarrow>
         getItem (storage (setMessages stringify writeOk ms w)) key = getItem (storage w) key)
   \<and> getItem (storage (setMessages stringify writeOk ms w)) (js ''cached_messages_'' @ t) =
         getItem (storage w) (js ''cached_messages_'' @ t)
   \<and> storeMessages (syncMessages stringify parseList selected syncWriteOk t
         ((setMessages stringify writeOk ms w)\<lparr>storeMessages := current\<rparr>)) =
       storeMessages (syncMessages stringify parseList selected syncWriteOk t
         (w\<lparr>storeMessages := current\<rparr>))
   \<and> (getItem (storage w) (js ''cached_messages_'' @ t) = None \<and> selected = SelectError \<longrightarrow>
         storeMessages (syncMessages stringify parseList selected syncWriteOk t
           ((setMessages stringify writeOk ms w)\<lparr>storeMessages := []\<rparr>)) = [])
   \<and> (getItem (storage w) (js ''cached_messages_'' @ t) =
          getItem (storage other) (js ''cached_messages_'' @ t)
        \<and> storeMessages w = storeMessages other \<longrightarrow>
         storeMessages (syncMessages stringify parseList selected syncWriteOk t w) =
         storeMessages (syncMessages stringify parseList selected syncWriteOk t other))"
proof -
  have k: "js ''cached_messages_'' @ t \<noteq> js ''cached_messages''"
    using cache_key_differs [of t] by simp
  have a: "getItem (storage (setMessages stringify True ms w)) (js ''cached_messages'') = Some (stringify ms)"
    by (simp add: setMessages_def Let_def getItem_setItem)
  have b: "\<forall>key. key \<noteq> js ''cached_messages'' \<longrightarrow>
         getItem (storage (setMessages stringify writeOk ms w)) key = getItem (storage w) key"
    by (simp add: setMessages_other_keys)
  have c: "getItem (storage (setMessages stringify writeOk ms w)) (js ''cached_messages_'' @ t) =
         getItem (storage w) (js ''cached_messages_'' @ t)"
    by (rule setMessages_other_keys [OF k])
  have c': "getItem (storage ((setMessages stringify writeOk ms w)\<lparr>storeMessages := x\<rparr>))
         (js ''cached_messages_'' @ t) =
       getItem (storage (w\<lparr>storeMessages := x\<rparr>)) (js ''cached_messages_'' @ t)" for x
    using c by simp
  have d: "storeMessages (syncMessages stringify parseList selected syncWriteOk t
         ((setMessages stringify writeOk ms w)\<lparr>storeMessages := current\<rparr>)) =
       storeMessages (syncMessages stringify parseList selected syncWriteOk t
         (w\<lparr>storeMessages := current\<rparr>))"
    by (rule syncMessages_store [OF c']) simp
  have e: "getItem (storage w) (js ''cached_messages_'' @ t) = None \<and> selected = SelectError \<longrightarrow>
         storeMessages (syncMessages stringify parseList selected syncWriteOk t
           ((setMessages stringify writeOk ms w)\<lparr>storeMessages := []\<rparr>)) = []"
  proof
    assume n: "getItem (storage w) (js ''cached_messages_'' @ t) = None \<and> selected = SelectError"
    have "storeMessages (syncMessages stringify parseList selected syncWriteOk t
           ((setMessages stringify writeOk ms w)\<lparr>storeMessages := []\<rparr>)) =
        storeMessages (syncMessages stringify parseList selected syncWriteOk t (w\<lparr>storeMessages := []\<rparr>))"
      by (rule syncMessages_store [OF c']) simp
    also have "\<dots> = []"
      using n by (simp add: syncMessages_def Let_def)
    finally show "storeMessages (syncMessages stringify parseList selected syncWriteOk t
           ((setMessages stringify writeOk ms w)\<lparr>storeMessages := []\<rparr>)) = []" .
  qed
  have g: "getItem (storage w) (js ''cached_messages_'' @ t) =
          getItem (storage other) (js ''cached_messages_'' @ t)
        \<and> storeMessages w = storeMessages other \<longrightarrow>
         storeMessages (syncMessages stringify parseList selected syncWriteOk t w) =
         storeMessages (syncMessages stringify parseList selected syncWriteOk t other)"
    using syncMessages_store [of w t other stringify parseList selected syncWriteOk] by blast
  show ?thesis
    by (intro conjI cache_key_differs a b c d e g)
qed

theorem C10_setMessages_cache_not_read_witness:
  "js ''cached_messages_t1'' \<noteq> js ''cached_messages''
   \<and> getItem (storage initialWorld) (js ''cached_messages_'' @ js ''t1'') = None
   \<and> getItem (storage (setMessages exampleStringify True [failedMessage] initialWorld))
        (js ''cached_messages'') = Some (js ''messages:1'')
   \<and> getItem (storage (setMessages exampleStringify True [failedMessage] initialWorld))
        (js ''cached_messages_t1'') = None
   \<and> storeMessages (setMessages exampleStringify True [failedMessage] initialWorld) = [failedMessage]
   \<and> storeMessages (syncMessages exampleStringify exampleParseList SelectError True (js ''t1'')
         ((setMessages exampleStringify True [failedMessage] initialWorld)\<lparr>storeMessages := []\<rparr>)) = []
   \<and> getItem (storage initialWorld) (js ''cached_messages_'' @ js ''t1'') =
       getItem (storage (initialWorld\<lparr>storage := [(js ''cached_messages'', js ''messages:1'')]\<rparr>))
         (js ''cached_messages_'' @ js ''t1'')
   \<and> storeMessages initialWorld =
       storeMessages (initialWorld\<lparr>storage := [(js ''cached_messages'', js ''messages:1'')]\<rparr>)
   \<and> storeMessages (syncMessages exampleStringify exampleParseList SelectError True (js ''t1'')
         initialWorld) =
       storeMessages (syncMessages exampleStringify exampleParseList SelectError True (js ''t1'')
         (initialWorld\<lparr>storage := [(js ''cached_messages'', js ''messages:1'')]\<rparr>))"
proof -
  have k: "js ''cached_messages_t1'' \<noteq> js ''cached_messages''"
    "js ''cached_messages_'' @ js ''t1'' = js ''cached_messages_t1''"
    by (simp_all add: js_def)
  have n: "getItem (storage initialWorld) (js ''cached_messages_'' @ js ''t1'') = None \<and>
      SelectError = SelectError"
    by (simp add: initialWorld_def getItem_def)
  have s: "exampleStringify [failedMessage] = js ''messages:1''"
    by (simp add: exampleStringify_def numberToString_def digits.simps js_def)
  have m: "storeMessages (setMessages exampleStringify True [failedMessage] initialWorld) = [failedMessage]"
    by (simp add: setMessages_def Let_def)
  have o: "getItem (storage initialWorld) (js ''cached_messages_'' @ js ''t1'') =
       getItem (storage (initialWorld\<lparr>storage := [(js ''cached_messages'', js ''messages:1'')]\<rparr>))
         (js ''cached_messages_'' @ js ''t1'')
     \<and> storeMessages initialWorld =
       storeMessages (initialWorld\<lparr>storage := [(js ''cached_messages'', js ''messages:1'')]\<rparr>)"
    unfolding k(2) using k(1) by (simp add: initialWorld_def getItem_def)
  note t = C10_setMessages_cache_not_read [of "js ''t1''" exampleStringify "[failedMessage]" initialWorld
      True exampleParseList SelectError True "[]"
      "initialWorld\<lparr>storage := [(js ''cached_messages'', js ''messages:1'')]\<rparr>"]
  note a = t [THEN conjunct2, THEN conjunct1, unfolded s]
  note b = t [THEN conjunct2, THEN conjunct2, THEN conjunct1, THEN spec, THEN mp, OF k(1)]
  note e = t [THEN conjunct2, THEN conjunct2, THEN conjunct2, THEN conjunct2, THEN conjunct2,
      THEN conjunct1, THEN mp, OF n]
  note g = t [THEN conjunct2, THEN conjunct2, THEN conjunct2, THEN conjunct2, THEN conjunct2,
      THEN conjunct2, THEN mp, OF o]
  have b': "getItem (storage (setMessages exampleStringify True [failedMessage] initialWorld))
        (js ''cached_messages_t1'') = None"
    unfolding b by (simp add: initialWorld_def getItem_def)
  show ?thesis
    by (intro conjI k(1) n [THEN conjunct1] a b' m e o [THEN conjunct1] o [THEN conjunct2] g)
qed

section \<open>Properties of the resynchronisation\<close>

lemma retryMessage_frame:
  "storage (retryMessage env cl message attempt w) = storage w
   \<and> isOnline (retryMessage env cl message attempt w) = isOnline w
   \<and> topLevelRetries (retryMessage env cl message attempt w) =
       topLevelRetries w @ (if attempt = 0 then [message] else [])"
proof (induction env cl message attempt w rule: retryMessage.induct)
  case (1 env cl message attempt w)
  show ?case
  proof (cases "4 \<le> attempt")
    case True
    then show ?thesis
      by (simp add: retryMessage_terminal [OF True] topLevelRetries_def)
  next
    case False
    then have lt: "attempt < 4" by simp
    show ?thesis
    proof (cases "attemptSucceeds (env attempt)")
      case True
      show ?thesis
        by (simp add: retryMessage_ok_step [where env = env and attempt = attempt, OF lt True]
            topLevelRetries_def)
    next
      case False
      have r: "retryTry (env attempt) cl message attempt
          (w\<lparr>retryTrace := retryTrace w @ [(message, attempt)], isLoading := True, error := None\<rparr>) =
         (False, w\<lparr>retryTrace := retryTrace w @ [(message, attempt)], isLoading := True, error := None,
           sleeps := sleeps w @ attemptSleeps attempt,
           relayLog := relayLog w @ attemptRequests (env attempt) cl\<rparr>)"
        using False by (simp add: retryTry_fail)
      from "1.IH" [OF refl _ r [symmetric] refl] lt
      show ?thesis
        unfolding retryMessage_fail_step [where env = env and attempt = attempt, OF lt False]
        by (simp add: topLevelRetries_def)
    qed
  qed
qed

lemma readItem_removeItem:
  "key' \<noteq> key \<Longrightarrow> readItem parse (removeItem st key) key' = readItem parse st key'"
  by (simp add: readItem_def getItem_removeItem)

lemma removeItem_filter: "removeItem st key = filter (\<lambda>(k, v). key \<noteq> k) st"
  by (simp add: removeItem_def AList.delete_eq)

lemma filter_removed:
  "filter (\<lambda>(k, v). k \<notin> set keys) (filter (\<lambda>(k, v). key \<noteq> k) st) =
   filter (\<lambda>(k, v). k \<notin> set (key # keys)) (st :: (jsstring \<times> jsstring) list)"
  by (induction st) auto

lemma syncLoop_spec:
  assumes "distinct keys" and "\<forall>key \<in> set keys. readItem parse (storage w) key \<noteq> None"
  shows "storage (syncLoop parse envs cl keys i w) = filter (\<lambda>(k, v). k \<notin> set keys) (storage w)
    \<and> isOnline (syncLoop parse envs cl keys i w) = isOnline w
    \<and> map Some (topLevelRetries (syncLoop parse envs cl keys i w)) =
        map Some (topLevelRetries w) @ map (readItem parse (storage w)) keys"
  using assms
proof (induction keys arbitrary: i w)
  case Nil
  show ?case by simp
next
  case (Cons key keys)
  from Cons.prems(2) obtain message where m: "readItem parse (storage w) key = Some message"
    by auto
  define w1 where "w1 = retryMessage (envs i) cl message 0 w"
  define w2 where "w2 = w1\<lparr>storage := removeItem (storage w1) key\<rparr>"
  note f = retryMessage_frame [of "envs i" cl message 0 w, folded w1_def]
  have s2: "storage w2 = removeItem (storage w) key"
    using f by (simp add: w2_def)
  have o2: "isOnline w2 = isOnline w"
    using f by (simp add: w2_def)
  have t2: "topLevelRetries w2 = topLevelRetries w @ [message]"
    using f by (simp add: w2_def topLevelRetries_def)
  have step: "syncLoop parse envs cl (key # keys) i w = syncLoop parse envs cl keys (Suc i) w2"
    by (simp add: m w1_def w2_def Let_def)
  have d: "distinct keys" and nk: "key \<notin> set keys"
    using Cons.prems(1) by simp_all
  have r: "\<forall>key' \<in> set keys. readItem parse (storage w2) key' = readItem parse (storage w) key'"
  proof
    fix key'
    assume "key' \<in> set keys"
    then have "key' \<noteq> key"
      using nk by blast
    then show "readItem parse (storage w2) key' = readItem parse (storage w) key'"
      unfolding s2 by (rule readItem_removeItem)
  qed
  then have p: "\<forall>key' \<in> set keys. readItem parse (storage w2) key' \<noteq> None"
    using Cons.prems(2) by simp
  note ih = Cons.IH [OF d p, of "Suc i"]
  have a: "storage (syncLoop parse envs cl (key # keys) i w) =
      filter (\<lambda>(k, v). k \<notin> set (key # keys)) (storage w)"
    unfolding step ih [THEN conjunct1] s2 removeItem_filter
    by (rule filter_removed)
  have b: "isOnline (syncLoop parse envs cl (key # keys) i w) = isOnline w"
    unfolding step ih [THEN conjunct2, THEN conjunct1] o2 ..
  have mr: "map (readItem parse (storage w2)) keys = map (readItem parse (storage w)) keys"
    using r by (simp cong: map_cong)
  have c: "map Some (topLevelRetries (syncLoop parse envs cl (key # keys) i w)) =
        map Some (topLevelRetries w) @ map (readItem parse (storage w)) (key # keys)"
    unfolding step ih [THEN conjunct2, THEN conjunct2] t2 mr by (simp add: m)
  show ?case
    by (intro conjI a b c)
qed

lemma pendingKeys_filter:
  "filter (\<lambda>(k, v). k \<notin> set (pendingKeysOf st)) st =
   filter (\<lambda>(k, v). \<not> startsWith k (js ''pending_message_'')) st"
proof (rule filter_cong [OF refl])
  fix x assume x: "x \<in> set st"
  obtain k v where kv: "x = (k, v)"
    by (rule prod.exhaust)
  have "k \<in> set (getAllKeys st)"
    using x kv by (force simp: getAllKeys_def)
  then show "(case x of (k, v) \<Rightarrow> k \<notin> set (pendingKeysOf st)) =
      (case x of (k, v) \<Rightarrow> \<not> startsWith k (js ''pending_message_''))"
    by (simp add: kv pendingKeysOf_def)
qed

lemma pendingKeys_removed:
  "pendingKeysOf (filter (\<lambda>(k, v). \<not> startsWith k (js ''pending_message_''))
     (st :: (jsstring \<times> jsstring) list)) = []"
  unfolding pendingKeysOf_def getAllKeys_def by (induction st) auto

lemma connectivityChange_online:
  "isOnline w = False \<Longrightarrow>
   connectivityChange parse envs (Some True) w =
     syncLoop parse envs (w\<lparr>isOnline := True\<rparr>) (pendingKeysOf (storage w)) 0 (w\<lparr>isOnline := True\<rparr>)"
  by (simp add: connectivityChange_def netInfoListener_def setIsOnline_def isOnlineEffect_def
      syncPendingMessages_def Let_def)

lemma connectivityChange_offline:
  "connectivityChange parse envs (Some False) w = w\<lparr>isOnline := False\<rparr>"
  by (simp add: connectivityChange_def netInfoListener_def setIsOnline_def isOnlineEffect_def Let_def)

text \<open>
  What the scan does with a queue: when connectivity changes from offline to online,
  the durable store has distinct keys and every value under a key starting with
  \<^verbatim>\<open>pending_message_\<close> parses as a message, \<^verbatim>\<open>retryMessage\<close> is called from outside exactly
  once for each of these stored messages, in the order of the keys, and on nothing
  else; every such key is removed and every other entry is kept.
\<close>

lemma resync_scans_pending_keys:
  assumes "isOnline w = False" and "distinct (getAllKeys (storage w))"
    and "None \<notin> set (queuedMessages parse (storage w))"
  shows "isOnline (connectivityChange parse envs (Some True) w)
     \<and> map Some (topLevelRetries (connectivityChange parse envs (Some True) w)) =
         map Some (topLevelRetries w) @ queuedMessages parse (storage w)
     \<and> storage (connectivityChange parse envs (Some True) w) =
         filter (\<lambda>(key, v). \<not> startsWith key (js ''pending_message_'')) (storage w)
     \<and> pendingKeysOf (storage (connectivityChange parse envs (Some True) w)) = []
     \<and> topLevelRetries (connectivityChange parse envs' (Some True)
          (connectivityChange parse envs' (Some False)
            (connectivityChange parse envs (Some True) w))) =
         topLevelRetries (connectivityChange parse envs (Some True) w)"
proof -
  define w1 where "w1 = w\<lparr>isOnline := True\<rparr>"
  define cc where "cc = connectivityChange parse envs (Some True) w"
  have cc: "cc = syncLoop parse envs w1 (pendingKeysOf (storage w1)) 0 w1"
    unfolding cc_def w1_def connectivityChange_online [OF assms(1)] by simp
  have d: "distinct (pendingKeysOf (storage w1))"
    using assms(2) by (simp add: pendingKeysOf_def w1_def)
  have q: "\<forall>key \<in> set (pendingKeysOf (storage w1)). readItem parse (storage w1) key \<noteq> None"
  proof
    fix key assume "key \<in> set (pendingKeysOf (storage w1))"
    then have "readItem parse (storage w) key \<in> set (queuedMessages parse (storage w))"
      by (simp add: queuedMessages_def w1_def)
    with assms(3) have "readItem parse (storage w) key \<noteq> None"
      by metis
    then show "readItem parse (storage w1) key \<noteq> None"
      by (simp add: w1_def)
  qed
  note l = syncLoop_spec [OF d q, of envs w1 0, folded cc]
  have a: "isOnline cc"
    using l by (simp add: w1_def)
  have b: "map Some (topLevelRetries cc) = map Some (topLevelRetries w) @ queuedMessages parse (storage w)"
    using l by (simp add: w1_def queuedMessages_def topLevelRetries_def)
  have c: "storage cc = filter (\<lambda>(key, v). \<not> startsWith key (js ''pending_message_'')) (storage w)"
    using l pendingKeys_filter [of "storage w"] by (simp add: w1_def)
  have e: "pendingKeysOf (storage cc) = []"
    unfolding c by (rule pendingKeys_removed)
  have off: "isOnline (cc\<lparr>isOnline := False\<rparr>) = False"
    by simp
  have f: "topLevelRetries (connectivityChange parse envs' (Some True)
          (connectivityChange parse envs' (Some False) cc)) = topLevelRetries cc"
    unfolding connectivityChange_offline connectivityChange_online [OF off]
    by (simp add: e topLevelRetries_def)
  show ?thesis
    using a b c e f unfolding cc_def by - (intro conjI, assumption+)
qed

lemma startsWith_pending:
  "startsWith (js ''pending_message_1714557600000'') (js ''pending_message_'')"
  "\<not> startsWith (js ''cached_messages'') (js ''pending_message_'')"
  by (simp_all add: startsWith_def js_def)

lemma queuedWorld_queue: "queuedMessages exampleParse (storage queuedWorld) = [Some failedMessage]"
proof -
  have k: "pendingKeysOf (storage queuedWorld) = [js ''pending_message_1714557600000'']"
    by (simp add: pendingKeysOf_def getAllKeys_def queuedWorld_def startsWith_pending)
  have n: "js ''{failedMessage}'' \<noteq> []"
    by (simp add: js_def)
  have r: "readItem exampleParse (storage queuedWorld) (js ''pending_message_1714557600000'') =
      Some failedMessage"
    using n by (simp add: readItem_def getItem_def queuedWorld_def exampleParse_def)
  show ?thesis
    by (simp add: queuedMessages_def k r)
qed

lemma resync_scans_pending_keys_example:
  "isOnline queuedWorld = False \<and> distinct (getAllKeys (storage queuedWorld))
   \<and> None \<notin> set (queuedMessages exampleParse (storage queuedWorld))
   \<and> isOnline (connectivityChange exampleParse everyRetryReplies (Some True) queuedWorld)
   \<and> topLevelRetries (connectivityChange exampleParse everyRetryReplies (Some True) queuedWorld) =
        [failedMessage]
   \<and> storage (connectivityChange exampleParse everyRetryReplies (Some True) queuedWorld) =
        [(js ''cached_messages'', js ''messages:0'')]"
proof -
  have h: "isOnline queuedWorld = False" "distinct (getAllKeys (storage queuedWorld))"
    "None \<notin> set (queuedMessages exampleParse (storage queuedWorld))"
    unfolding queuedWorld_queue
    by (simp_all add: queuedWorld_def getAllKeys_def) (simp add: js_def)
  have t: "topLevelRetries queuedWorld = []"
    by (simp add: topLevelRetries_def queuedWorld_def failedWorld_eq readyWorld_def initialWorld_def)
  have s: "filter (\<lambda>(key, v). \<not> startsWith key (js ''pending_message_'')) (storage queuedWorld) =
      [(js ''cached_messages'', js ''messages:0'')]"
    by (simp add: queuedWorld_def startsWith_pending)
  note c = resync_scans_pending_keys [OF h, of everyRetryReplies everyRetryReplies,
      unfolded queuedWorld_queue t s]
  have r: "topLevelRetries (connectivityChange exampleParse everyRetryReplies (Some True) queuedWorld) =
        [failedMessage]"
  proof -
    have "map Some (topLevelRetries (connectivityChange exampleParse everyRetryReplies (Some True)
        queuedWorld)) = map Some [failedMessage]"
      using c [THEN conjunct2, THEN conjunct1] by simp
    then show ?thesis
      by (simp only: inj_map_eq_map [OF inj_Some])
  qed
  show ?thesis
    by (intro conjI h c [THEN conjunct1] r c [THEN conjunct2, THEN conjunct2, THEN conjunct1])
qed

text \<open>
  Nothing enqueues: \<^verbatim>\<open>sendMessage\<close> never writes the durable store (and neither does
  \<^verbatim>\<open>retryMessage\<close>, see \<open>retryMessage_frame\<close>), so no key starting with \<^verbatim>\<open>pending_message_\<close>
  is ever stored for a message whose send failed. With no such key, a change from
  offline to online only sets \<^verbatim>\<open>isOnline\<close>.
\<close>

lemma sendTry_storage: "storage (fst (sendTry env cl thread userMessage w)) = storage w"
  by (simp add: sendTry_def Let_def split: option.splits RelayOutcome.splits Body.splits)

lemma sendMessage_storage: "storage (sendMessage env w) = storage w"
proof (cases "currentThread w")
  case None
  then show ?thesis
    by (simp add: sendMessage_def)
next
  case (Some thread)
  show ?thesis
  proof (cases "trim (input w) = [] \<or> isLoading w")
    case True
    then show ?thesis
      using Some by (simp add: sendMessage_def)
  next
    case False
    define w2 where "w2 = w\<lparr>input := [], isLoading := True,
      messages := messages w @ [newUserMessage env thread (trim (input w))]\<rparr>"
    obtain w3 t where r: "sendTry env w thread (trim (input w)) w2 = (w3, t)"
      by (rule prod.exhaust)
    have s3: "storage w3 = storage w"
      using sendTry_storage [of env w thread "trim (input w)" w2] unfolding r
      by (simp add: w2_def)
    show ?thesis
      using Some False r s3
      by (cases t) (simp_all add: sendMessage_def Let_def w2_def)
  qed
qed

lemma reconnect_without_queue:
  "isOnline w = False \<Longrightarrow> pendingKeysOf (storage w) = [] \<Longrightarrow>
   connectivityChange parse envs (Some True) w = w\<lparr>isOnline := True\<rparr>"
  by (simp add: connectivityChange_online)

text \<open>
  Claim C8, checked on the code. The send of the scenario fails and leaves the user's
  message marked failed; the durable store stays empty, since nothing stores the
  message under a pending key. The device then goes offline and comes back online. The
  effect runs \<^verbatim>\<open>syncPendingMessages\<close>, which finds no pending key: the message is still
  marked failed and \<^verbatim>\<open>retryMessage\<close> was never called, where the claim asks for exactly
  one call.
\<close>

theorem C8_failed_message_not_retried:
  "map failed (messages failedWorld) = [Some True]
   \<and> storage failedWorld = []
   \<and> isOnline disconnectedWorld = False
   \<and> pendingKeysOf (storage disconnectedWorld) = []
   \<and> isOnline reconnectedWorld = True
   \<and> map failed (messages reconnectedWorld) = [Some True]
   \<and> retryTrace reconnectedWorld = []
   \<and> relayLog reconnectedWorld = relayLog failedWorld"
proof -
  have d: "disconnectedWorld = failedWorld\<lparr>isOnline := False\<rparr>"
    unfolding disconnectedWorld_def by (rule connectivityChange_offline)
  have off: "isOnline (failedWorld\<lparr>isOnline := False\<rparr>) = False"
    by simp
  have p: "pendingKeysOf (storage (failedWorld\<lparr>isOnline := False\<rparr>)) = []"
    by (simp add: failedWorld_eq readyWorld_def initialWorld_def pendingKeysOf_def getAllKeys_def)
  have r: "reconnectedWorld = failedWorld\<lparr>isOnline := True\<rparr>"
    unfolding reconnectedWorld_def d reconnect_without_queue [OF off p] by simp
  show ?thesis
    unfolding r d
    by (simp add: failedWorld_eq readyWorld_def initialWorld_def failedMessage_def
        pendingKeysOf_def getAllKeys_def)
qed

end
